theory Spec2Isabelle
  imports Complex_Main "HOL-Library.AList"
begin

section \<open>Data model (backend/models.py)\<close>

text \<open>
  Timestamps are the values returned by \<^verbatim>\<open>time.time()\<close>. They are modelled as
  real numbers; every function that reads the clock in the source takes the value read
  as an argument. Python integers are unbounded and are modelled as \<open>int\<close>.
\<close>

text \<open>JSON values: the dictionaries sent with \<^verbatim>\<open>send_json\<close> and the result of \<^verbatim>\<open>json.loads\<close>.\<close>

datatype json =
    JNull
  | JBool bool
  | JInt int
  | JFloat real
  | JStr string
  | JArr "json list"
  | JObj "(string \<times> json) list"

text \<open>\<^verbatim>\<open>class BuzzerState(str, Enum)\<close> and its \<^verbatim>\<open>.value\<close>.\<close>

datatype BuzzerState = DISABLED | ENABLED | LOCKED

fun state_value :: "BuzzerState \<Rightarrow> string" where
  "state_value DISABLED = ''disabled''"
| "state_value ENABLED = ''enabled''"
| "state_value LOCKED = ''locked''"

record TeamInfo =
  team_id :: string
  team_name :: string
  score :: int
  is_connected :: bool
  joined_at :: "real option"

record SessionState =
  session_id :: string
  buzzer_state :: BuzzerState
  buzzer_winner :: "string option"
  buzzer_timestamp :: "real option"
  question_number :: int

text \<open>Exceptions raised by the modelled code.\<close>

datatype error =
    HTTPException int string
  | KeyError string
  | AttributeError
  | RecursionError
  | RuntimeError
  | SendFailure

subsection \<open>Rate limiter\<close>

text \<open>
  \<^verbatim>\<open>RateLimiter._log\<close> is a dictionary from client id to the list of recorded
  timestamps. \<^verbatim>\<open>record\<close> and \<^verbatim>\<open>is_limited\<close> read the clock themselves; the value
  read is the argument \<open>now\<close>.
\<close>

record RateLimiter =
  max_events :: int
  window :: real
  rl_log :: "string \<rightharpoonup> real list"

definition RateLimiter_init :: RateLimiter where
  "RateLimiter_init = \<lparr>max_events = 3, window = 5, rl_log = Map.empty\<rparr>"

definition rl_record :: "RateLimiter \<Rightarrow> string \<Rightarrow> real \<Rightarrow> RateLimiter" where
  "rl_record rl client_id now =
     (let old = (case rl_log rl client_id of None \<Rightarrow> [] | Some es \<Rightarrow> es)
      in rl\<lparr>rl_log := (rl_log rl)(client_id \<mapsto> old @ [now])\<rparr>)"

definition is_limited :: "RateLimiter \<Rightarrow> string \<Rightarrow> real \<Rightarrow> bool \<times> RateLimiter" where
  "is_limited rl client_id now =
     (let events = (case rl_log rl client_id of None \<Rightarrow> [] | Some es \<Rightarrow> es);
          recent = filter (\<lambda>t. now - t < window rl) events
      in (max_events rl \<le> int (length recent),
          rl\<lparr>rl_log := (rl_log rl)(client_id \<mapsto> recent)\<rparr>))"

subsection \<open>Connection manager\<close>

text \<open>
  A WebSocket object is identified by a number. \<^verbatim>\<open>ConnectionManager._connections\<close> maps
  a session id to a dictionary from client id to \<^verbatim>\<open>{"ws": ..., "role": ...}\<close>. The
  inner dictionary is iterated by \<^verbatim>\<open>broadcast\<close>, so it is an association list in
  insertion order: assignment is \<open>AList.update\<close> (an existing key keeps its place, a new
  key goes to the end) and \<^verbatim>\<open>pop(k, None)\<close> is \<open>AList.delete\<close>.

  The calls made on WebSocket objects are recorded as events. Whether \<^verbatim>\<open>send_json\<close>
  raises on a channel is decided by the environment, given as the predicate \<open>dead\<close>.
  \<^verbatim>\<open>connect\<close> and \<^verbatim>\<open>disconnect\<close> have no \<^verbatim>\<open>await\<close> between reading and
  writing the dictionary. \<^verbatim>\<open>broadcast\<close> awaits a send inside its loop over the
  dictionary itself, so other coroutines may run there: \<open>broadcast\<close> below is the run
  in which none of them changes the dictionary, and \<open>broadcast_live\<close> is the run in
  which the handlers of other connections disconnect meanwhile.
\<close>

record conn =
  ws :: nat
  role :: string

datatype event =
    Accepted nat
  | Closed nat int string
  | Sent nat json
  | SendFailed nat json

type_synonym registry = "string \<rightharpoonup> (string \<times> conn) list"

definition count :: "registry \<Rightarrow> string \<Rightarrow> nat" where
  "count conns sid = length (case conns sid of None \<Rightarrow> [] | Some inner \<Rightarrow> inner)"

definition get_connected_teams :: "registry \<Rightarrow> string \<Rightarrow> string list" where
  "get_connected_teams conns sid = map fst (case conns sid of None \<Rightarrow> [] | Some inner \<Rightarrow> inner)"

text \<open>
  \<^verbatim>\<open>connect\<close>: accept, create the session's dictionary when missing, close a channel
  already registered for the client with code 4009 (an exception of that close is
  swallowed), then register the new channel.
\<close>

definition connect :: "registry \<Rightarrow> nat \<Rightarrow> string \<Rightarrow> string \<Rightarrow> string \<Rightarrow> event list \<times> registry" where
  "connect conns w sid client_id r =
     (let inner = (case conns sid of None \<Rightarrow> [] | Some i \<Rightarrow> i);
          closing = (case map_of inner client_id of
                       None \<Rightarrow> []
                     | Some old \<Rightarrow> [Closed (ws old) 4009 ''New connection from same client''])
      in (Accepted w # closing,
          conns(sid \<mapsto> AList.update client_id \<lparr>ws = w, role = r\<rparr> inner)))"

definition disconnect :: "registry \<Rightarrow> string \<Rightarrow> string \<Rightarrow> registry" where
  "disconnect conns sid client_id =
     (case conns sid of
        None \<Rightarrow> conns
      | Some inner \<Rightarrow> conns(sid \<mapsto> AList.delete client_id inner))"

text \<open>
  The loop of \<^verbatim>\<open>broadcast\<close>: the events of the sends, and the list \<^verbatim>\<open>dead\<close> of
  client ids whose send raised, in iteration order.
\<close>

fun broadcast_loop ::
  "(nat \<Rightarrow> bool) \<Rightarrow> json \<Rightarrow> string option \<Rightarrow> (string \<times> conn) list \<Rightarrow> event list \<times> string list" where
  "broadcast_loop dead message exclude [] = ([], [])"
| "broadcast_loop dead message exclude ((client_id, info) # rest) =
     (if Some client_id = exclude then broadcast_loop dead message exclude rest
      else (let (evs, dd) = broadcast_loop dead message exclude rest
            in if dead (ws info) then (SendFailed (ws info) message # evs, client_id # dd)
               else (Sent (ws info) message # evs, dd)))"

definition broadcast ::
  "(nat \<Rightarrow> bool) \<Rightarrow> registry \<Rightarrow> string \<Rightarrow> json \<Rightarrow> string option \<Rightarrow> event list \<times> registry" where
  "broadcast dead conns sid message exclude =
     (case conns sid of
        None \<Rightarrow> ([], conns)
      | Some inner \<Rightarrow>
          (let (evs, dd) = broadcast_loop dead message exclude inner
           in (evs, conns(sid \<mapsto> foldl (\<lambda>i d. AList.delete d i) inner dd))))"

definition send_to ::
  "(nat \<Rightarrow> bool) \<Rightarrow> registry \<Rightarrow> string \<Rightarrow> string \<Rightarrow> json \<Rightarrow> event list" where
  "send_to dead conns sid client_id message =
     (case map_of (case conns sid of None \<Rightarrow> [] | Some inner \<Rightarrow> inner) client_id of
        None \<Rightarrow> []
      | Some c \<Rightarrow> (if dead (ws c) then [SendFailed (ws c) message] else [Sent (ws c) message]))"

text \<open>
  \<^verbatim>\<open>broadcast\<close> with other coroutines running during its sends. The loop iterates the
  live dictionary, of which no copy is taken. \<open>others\<close> gives, for each awaited send in
  turn, the client id for which another handler calls \<^verbatim>\<open>disconnect\<close> on this session
  during that send, if any. The iterator of a Python dictionary raises
  \<^verbatim>\<open>RuntimeError\<close> when it is advanced after the size of the dictionary has changed;
  the exception is raised by the \<^verbatim>\<open>for\<close> statement, outside the \<^verbatim>\<open>try\<close>, and leaves
  \<^verbatim>\<open>broadcast\<close> before the loop over \<^verbatim>\<open>dead\<close>. The arguments \<open>live\<close> and
  \<open>rest\<close> are the dictionary as it is and the entries still to be visited.
\<close>

fun broadcast_live_loop ::
  "(nat \<Rightarrow> bool) \<Rightarrow> json \<Rightarrow> string option \<Rightarrow> string option list \<Rightarrow>
   (string \<times> conn) list \<Rightarrow> (string \<times> conn) list \<Rightarrow>
   (error + string list) \<times> (string \<times> conn) list \<times> event list" where
  "broadcast_live_loop dead message exclude others live [] = (Inr [], live, [])"
| "broadcast_live_loop dead message exclude others live ((client_id, info) # rest) =
     (if Some client_id = exclude
      then broadcast_live_loop dead message exclude others live rest
      else
        (let ev = (if dead (ws info) then SendFailed (ws info) message
                   else Sent (ws info) message);
             live' = (case others of
                        Some c # later \<Rightarrow> AList.delete c live
                      | _ \<Rightarrow> live)
         in if length live' \<noteq> length live then (Inl RuntimeError, live', [ev])
            else
              (case broadcast_live_loop dead message exclude (tl others) live' rest of
                 (Inl e, l, evs) \<Rightarrow> (Inl e, l, ev # evs)
               | (Inr dd, l, evs) \<Rightarrow>
                   (Inr (if dead (ws info) then client_id # dd else dd), l, ev # evs))))"

definition broadcast_live ::
  "(nat \<Rightarrow> bool) \<Rightarrow> string option list \<Rightarrow> registry \<Rightarrow> string \<Rightarrow> json \<Rightarrow> string option \<Rightarrow>
   (error + unit) \<times> registry \<times> event list" where
  "broadcast_live dead others conns sid message exclude =
     (case conns sid of
        None \<Rightarrow> (Inr (), conns, [])
      | Some inner \<Rightarrow>
          (case broadcast_live_loop dead message exclude others inner inner of
             (Inl e, live, evs) \<Rightarrow> (Inl e, conns(sid \<mapsto> live), evs)
           | (Inr dd, live, evs) \<Rightarrow>
               (Inr (), conns(sid \<mapsto> foldl (\<lambda>i d. AList.delete d i) live dd), evs)))"

section \<open>Global state and helpers (backend/main.py)\<close>

text \<open>
  The module-level objects \<^verbatim>\<open>manager\<close>, \<^verbatim>\<open>rate_limiter\<close>, \<^verbatim>\<open>sessions\<close> and
  \<^verbatim>\<open>teams_db\<close>. \<^verbatim>\<open>teams_db\<close> is read in insertion order, so it is an association
  list. An operation returns its outcome (the exception raised or the value returned),
  the state it leaves behind, and the events it caused: an exception does not undo the
  assignments made before it.
\<close>

record system =
  connections :: registry
  rate_limiter :: RateLimiter
  sessions :: "string \<rightharpoonup> SessionState"
  teams_db :: "(string \<times> TeamInfo) list"

type_synonym 'a result = "(error + 'a) \<times> system \<times> event list"

definition new_team :: "string \<Rightarrow> string \<Rightarrow> TeamInfo" where
  "new_team tid tname =
     \<lparr>team_id = tid, team_name = tname, score = 0, is_connected = False, joined_at = None\<rparr>"

text \<open>The state after \<^verbatim>\<open>seed_initial_data\<close> has run on the empty module state.\<close>

definition seed_initial_data :: system where
  "seed_initial_data =
     \<lparr>connections = Map.empty,
      rate_limiter = RateLimiter_init,
      sessions = [''main'' \<mapsto>
         \<lparr>session_id = ''main'', buzzer_state = DISABLED, buzzer_winner = None,
          buzzer_timestamp = None, question_number = 0\<rparr>],
      teams_db = AList.update ''phoenix'' (new_team ''phoenix'' ''Phoenix'')
                   (AList.update ''gadzit'' (new_team ''gadzit'' ''GadzIT'') [])\<rparr>"

definition get_session :: "system \<Rightarrow> string \<Rightarrow> error + SessionState" where
  "get_session s sid =
     (case sessions s sid of
        None \<Rightarrow> Inl (HTTPException 404 ''Session not found'')
      | Some session \<Rightarrow> Inr session)"

definition team_payload :: "TeamInfo \<Rightarrow> json" where
  "team_payload t =
     JObj [(''id'', JStr (team_id t)), (''name'', JStr (team_name t)),
           (''score'', JInt (score t)), (''is_connected'', JBool (is_connected t))]"

fun get_duel_payload :: "(string \<times> TeamInfo) list \<Rightarrow> (string \<times> json) list" where
  "get_duel_payload ((ka, ta) # (kb, tb) # rest) =
     [(''team_a'', team_payload ta), (''team_b'', team_payload tb)]"
| "get_duel_payload pair = []"

definition opt_str :: "string option \<Rightarrow> json" where
  "opt_str x = (case x of None \<Rightarrow> JNull | Some v \<Rightarrow> JStr v)"

definition opt_float :: "real option \<Rightarrow> json" where
  "opt_float x = (case x of None \<Rightarrow> JNull | Some v \<Rightarrow> JFloat v)"

text \<open>
  \<^verbatim>\<open>teams_db[w].team_name if w and w in teams_db else None\<close>: an empty string is
  false in Python.
\<close>

definition winner_name_of :: "system \<Rightarrow> SessionState \<Rightarrow> string option" where
  "winner_name_of s session =
     (case buzzer_winner session of
        None \<Rightarrow> None
      | Some w \<Rightarrow> (if w = [] then None
                  else (case map_of (teams_db s) w of
                          None \<Rightarrow> None
                        | Some t \<Rightarrow> Some (team_name t))))"

definition state_sync :: "system \<Rightarrow> SessionState \<Rightarrow> json" where
  "state_sync s session =
     JObj ([(''type'', JStr ''state_sync''),
            (''buzzer_state'', JStr (state_value (buzzer_state session))),
            (''buzzer_winner'', opt_str (buzzer_winner session)),
            (''buzzer_winner_name'', opt_str (winner_name_of s session)),
            (''buzzer_timestamp'', opt_float (buzzer_timestamp session)),
            (''question_number'', JInt (question_number session))]
           @ get_duel_payload (teams_db s))"

text \<open>\<^verbatim>\<open>broadcast_state\<close>: \<^verbatim>\<open>sessions[session_id]\<close> raises KeyError on a missing key.\<close>

definition broadcast_state :: "(nat \<Rightarrow> bool) \<Rightarrow> system \<Rightarrow> string \<Rightarrow> unit result" where
  "broadcast_state dead s sid =
     (case sessions s sid of
        None \<Rightarrow> (Inl (KeyError sid), s, [])
      | Some session \<Rightarrow>
          (let (evs, conns') = broadcast dead (connections s) sid (state_sync s session) None
           in (Inr (), s\<lparr>connections := conns'\<rparr>, evs)))"

text \<open>The value returned after an awaited broadcast, unless the broadcast raised.\<close>

definition returning :: "unit result \<Rightarrow> (system \<Rightarrow> json) \<Rightarrow> json result" where
  "returning r v =
     (case r of
        (Inl e, s, evs) \<Rightarrow> (Inl e, s, evs)
      | (Inr u, s, evs) \<Rightarrow> (Inr (v s), s, evs))"

section \<open>Administrative operations\<close>

text \<open>The operations are modelled after \<^verbatim>\<open>require_admin\<close> has admitted the caller.\<close>

definition enable_buzzer :: "(nat \<Rightarrow> bool) \<Rightarrow> system \<Rightarrow> string \<Rightarrow> json result" where
  "enable_buzzer dead s sid =
     (case get_session s sid of
        Inl e \<Rightarrow> (Inl e, s, [])
      | Inr session \<Rightarrow>
          (if buzzer_state session = LOCKED
           then (Inl (HTTPException 400 ''Reset buzzer first''), s, [])
           else
             (let session' = session\<lparr>buzzer_state := ENABLED, buzzer_winner := None,
                                     buzzer_timestamp := None,
                                     question_number := question_number session + 1\<rparr>;
                  s1 = s\<lparr>sessions := (sessions s)(sid \<mapsto> session')\<rparr>
              in returning (broadcast_state dead s1 sid)
                   (\<lambda>s2. JObj [(''status'', JStr ''enabled''),
                               (''question_number'', JInt (question_number session'))]))))"

definition disable_buzzer :: "(nat \<Rightarrow> bool) \<Rightarrow> system \<Rightarrow> string \<Rightarrow> json result" where
  "disable_buzzer dead s sid =
     (case sessions s sid of
        None \<Rightarrow> (Inl (KeyError sid), s, [])
      | Some session \<Rightarrow>
          (let s1 = s\<lparr>sessions := (sessions s)(sid \<mapsto> session\<lparr>buzzer_state := DISABLED\<rparr>)\<rparr>
           in returning (broadcast_state dead s1 sid)
                (\<lambda>s2. JObj [(''status'', JStr ''disabled'')])))"

definition reset_buzzer :: "(nat \<Rightarrow> bool) \<Rightarrow> system \<Rightarrow> string \<Rightarrow> json result" where
  "reset_buzzer dead s sid =
     (case sessions s sid of
        None \<Rightarrow> (Inl (KeyError sid), s, [])
      | Some session \<Rightarrow>
          (let session' = session\<lparr>buzzer_state := DISABLED, buzzer_winner := None,
                                  buzzer_timestamp := None\<rparr>;
               s1 = s\<lparr>sessions := (sessions s)(sid \<mapsto> session')\<rparr>
           in returning (broadcast_state dead s1 sid)
                (\<lambda>s2. JObj [(''status'', JStr ''reset'')])))"

text \<open>\<^verbatim>\<open>update_score\<close> with the request body \<^verbatim>\<open>AdminScoreUpdate(team_id, delta)\<close>.\<close>

definition update_score :: "(nat \<Rightarrow> bool) \<Rightarrow> system \<Rightarrow> string \<Rightarrow> int \<Rightarrow> json result" where
  "update_score dead s tid delta =
     (case map_of (teams_db s) tid of
        None \<Rightarrow> (Inl (HTTPException 404 ''Team not found''), s, [])
      | Some team \<Rightarrow>
          (let team' = team\<lparr>score := max 0 (score team + delta)\<rparr>;
               s1 = s\<lparr>teams_db := AList.update tid team' (teams_db s)\<rparr>
           in returning (broadcast_state dead s1 ''main'')
                (\<lambda>s2. JObj [(''team_id'', JStr tid), (''new_score'', JInt (score team'))])))"

text \<open>The session part of \<^verbatim>\<open>reset_scores\<close> and \<^verbatim>\<open>set_teams\<close>: three assignments,
  none of them to \<^verbatim>\<open>buzzer_timestamp\<close>, made when \<^verbatim>\<open>sessions.get("main")\<close> is not None.\<close>

definition clear_main :: "(string \<rightharpoonup> SessionState) \<Rightarrow> (string \<rightharpoonup> SessionState)" where
  "clear_main ss =
     (case ss ''main'' of
        None \<Rightarrow> ss
      | Some session \<Rightarrow>
          ss(''main'' \<mapsto> session\<lparr>question_number := 0, buzzer_state := DISABLED,
                                 buzzer_winner := None\<rparr>))"

definition reset_scores :: "(nat \<Rightarrow> bool) \<Rightarrow> system \<Rightarrow> json result" where
  "reset_scores dead s =
     (let s1 = s\<lparr>teams_db := map (\<lambda>(k, team). (k, team\<lparr>score := 0\<rparr>)) (teams_db s),
                 sessions := clear_main (sessions s)\<rparr>
      in returning (broadcast_state dead s1 ''main'')
           (\<lambda>s2. JObj [(''status'', JStr ''reset'')]))"

text \<open>\<^verbatim>\<open>set_teams\<close>. The library function \<^verbatim>\<open>str.lower\<close> is the argument \<open>lower\<close>.\<close>

definition set_teams ::
  "(nat \<Rightarrow> bool) \<Rightarrow> (string \<Rightarrow> string) \<Rightarrow> system \<Rightarrow> string \<Rightarrow> string \<Rightarrow> string \<Rightarrow> string \<Rightarrow>
   json result" where
  "set_teams dead lower s team_a_id team_a_name team_b_id team_b_name =
     (let db = AList.update (lower team_b_id) (new_team (lower team_b_id) team_b_name)
                 (AList.update (lower team_a_id) (new_team (lower team_a_id) team_a_name) []);
          s1 = s\<lparr>teams_db := db, sessions := clear_main (sessions s)\<rparr>
      in returning (broadcast_state dead s1 ''main'')
           (\<lambda>s2. JObj ((''status'', JStr ''teams_set'') # get_duel_payload (teams_db s2))))"

definition panic_button :: "(nat \<Rightarrow> bool) \<Rightarrow> system \<Rightarrow> json result" where
  "panic_button dead s =
     (let ss = (case sessions s ''main'' of
                  None \<Rightarrow> sessions s
                | Some session \<Rightarrow>
                    (sessions s)(''main'' \<mapsto> session\<lparr>buzzer_state := DISABLED,
                                                      buzzer_winner := None,
                                                      buzzer_timestamp := None\<rparr>));
          s1 = s\<lparr>sessions := ss\<rparr>
      in returning (broadcast_state dead s1 ''main'')
           (\<lambda>s2. JObj [(''status'', JStr ''panic_executed'')]))"

section \<open>The WebSocket endpoint\<close>

text \<open>
  \<^verbatim>\<open>websocket_endpoint\<close> is modelled in three parts: the handshake up to the receive
  loop, one iteration of the loop on a received text, and the handler of
  \<^verbatim>\<open>WebSocketDisconnect\<close>. A \<^verbatim>\<open>send_json\<close> on the endpoint's own channel that raises
  ends the coroutine with that exception.
\<close>

definition unicast :: "(nat \<Rightarrow> bool) \<Rightarrow> system \<Rightarrow> nat \<Rightarrow> json \<Rightarrow> unit result" where
  "unicast dead s w message =
     (if dead w then (Inl SendFailure, s, [SendFailed w message])
      else (Inr (), s, [Sent w message]))"

text \<open>
  The handshake. \<open>token\<close> is the query parameter, \<open>verify\<close> stands for
  \<^verbatim>\<open>verify_ws_token\<close> and returns \<^verbatim>\<open>(payload["sub"], payload["role"])\<close>. The result
  is None when the endpoint closed the socket and returned, and the client id and role
  when it reached the receive loop.
\<close>

definition mark_connected :: "(string \<times> TeamInfo) list \<Rightarrow> string \<Rightarrow> string \<Rightarrow> real \<Rightarrow> (string \<times> TeamInfo) list" where
  "mark_connected db r client_id now =
     (case map_of db client_id of
        None \<Rightarrow> db
      | Some t \<Rightarrow> (if r = ''participant''
                  then AList.update client_id (t\<lparr>is_connected := True, joined_at := Some now\<rparr>) db
                  else db))"

definition connected_msg :: "system \<Rightarrow> SessionState \<Rightarrow> string \<Rightarrow> string \<Rightarrow> json" where
  "connected_msg s session client_id r =
     JObj ([(''type'', JStr ''connected''),
            (''client_id'', JStr client_id),
            (''role'', JStr r),
            (''buzzer_state'', JStr (state_value (buzzer_state session))),
            (''buzzer_winner'', opt_str (buzzer_winner session)),
            (''buzzer_winner_name'', opt_str (winner_name_of s session)),
            (''question_number'', JInt (question_number session))]
           @ get_duel_payload (teams_db s))"

definition websocket_open ::
  "(nat \<Rightarrow> bool) \<Rightarrow> (string \<Rightarrow> (string \<times> string) option) \<Rightarrow> system \<Rightarrow> nat \<Rightarrow> string \<Rightarrow>
   string option \<Rightarrow> real \<Rightarrow> (string \<times> string) option result" where
  "websocket_open dead verify s w sid token now =
     (if token = None \<or> token = Some [] then (Inr None, s, [Closed w 4001 ''Missing token''])
      else
        (case verify (case token of None \<Rightarrow> [] | Some tok \<Rightarrow> tok) of
           None \<Rightarrow> (Inr None, s, [Closed w 4003 ''Invalid token''])
         | Some (client_id, r) \<Rightarrow>
             (case sessions s sid of
                None \<Rightarrow> (Inr None, s, [Closed w 4004 ''Session not found''])
              | Some session \<Rightarrow>
                  (let (evs1, conns1) = connect (connections s) w sid client_id r;
                       s1 = s\<lparr>connections := conns1,
                              teams_db := mark_connected (teams_db s) r client_id now\<rparr>;
                       hello = connected_msg s1 session client_id r
                   in if dead w then (Inl SendFailure, s1, evs1 @ [SendFailed w hello])
                      else if r = ''participant''
                      then (let (evs2, conns2) =
                                  broadcast dead conns1 sid
                                    (JObj ([(''type'', JStr ''opponent_connected''),
                                            (''team_id'', JStr client_id)]
                                           @ get_duel_payload (teams_db s1)))
                                    (Some client_id)
                            in (Inr (Some (client_id, r)), s1\<lparr>connections := conns2\<rparr>,
                                evs1 @ [Sent w hello] @ evs2))
                      else (Inr (Some (client_id, r)), s1, evs1 @ [Sent w hello])))))"

text \<open>
  The outcome of \<^verbatim>\<open>json.loads(raw)\<close>: it raises \<^verbatim>\<open>JSONDecodeError\<close>, or it raises
  another exception (\<^verbatim>\<open>RecursionError\<close> on a deeply nested text), or it returns a
  value. Then \<^verbatim>\<open>data.get("type")\<close>, which exists on dictionaries only.
\<close>

datatype parsed = JSONDecodeError | LoadsRaised error | Loaded json

definition get_type :: "json \<Rightarrow> error + json" where
  "get_type data =
     (case data of
        JObj kv \<Rightarrow> Inr (case map_of kv ''type'' of None \<Rightarrow> JNull | Some v \<Rightarrow> v)
      | _ \<Rightarrow> Inl AttributeError)"

definition buzzer_locked_msg :: "system \<Rightarrow> string \<Rightarrow> string \<Rightarrow> TeamInfo option \<Rightarrow> real \<Rightarrow> json" where
  "buzzer_locked_msg s client_id tname loser ts =
     JObj ([(''type'', JStr ''buzzer_locked''),
            (''winner_id'', JStr client_id),
            (''winner_name'', JStr tname),
            (''loser_id'', opt_str (map_option team_id loser)),
            (''loser_name'', opt_str (map_option team_name loser)),
            (''timestamp'', JFloat ts),
            (''buzzer_state'', JStr (state_value LOCKED))]
           @ get_duel_payload (teams_db s))"

text \<open>
  The branch \<^verbatim>\<open>msg_type == "buzz" and role == "participant"\<close>. The clock is read three
  times: by \<^verbatim>\<open>is_limited\<close> (\<open>t1\<close>), by \<^verbatim>\<open>record\<close> (\<open>t2\<close>) and for the timestamp
  (\<open>t3\<close>). There is no \<^verbatim>\<open>await\<close> between the rate-limiter check and the assignments
  to the session, so the branch runs as one step up to its first send.
\<close>

definition on_buzz ::
  "(nat \<Rightarrow> bool) \<Rightarrow> system \<Rightarrow> nat \<Rightarrow> string \<Rightarrow> string \<Rightarrow> real \<Rightarrow> real \<Rightarrow> real \<Rightarrow> unit result" where
  "on_buzz dead s w sid client_id t1 t2 t3 =
     (let (limited, rl1) = is_limited (rate_limiter s) client_id t1
      in if limited
         then unicast dead (s\<lparr>rate_limiter := rl1\<rparr>) w
                (JObj [(''type'', JStr ''error''), (''message'', JStr ''Rate limited'')])
         else
           (let s2 = s\<lparr>rate_limiter := rl_record rl1 client_id t2\<rparr>
            in case sessions s2 sid of
                 None \<Rightarrow> (Inl (KeyError sid), s2, [])
               | Some session \<Rightarrow>
                   (if buzzer_state session \<noteq> ENABLED
                    then unicast dead s2 w
                           (JObj [(''type'', JStr ''buzz_rejected''), (''reason'', JStr ''not_enabled'')])
                    else
                      (let session' = session\<lparr>buzzer_state := LOCKED,
                                              buzzer_winner := Some client_id,
                                              buzzer_timestamp := Some t3\<rparr>;
                           s3 = s2\<lparr>sessions := (sessions s2)(sid \<mapsto> session')\<rparr>
                       in case map_of (teams_db s3) client_id of
                            None \<Rightarrow> (Inl (KeyError client_id), s3, [])
                          | Some team \<Rightarrow>
                              (let loser = find (\<lambda>t. team_id t \<noteq> client_id) (map snd (teams_db s3));
                                   (evs, conns') =
                                     broadcast dead (connections s3) sid
                                       (buzzer_locked_msg s3 client_id (team_name team) loser t3) None
                               in (Inr (), s3\<lparr>connections := conns'\<rparr>, evs))))))"

text \<open>One iteration of the receive loop on a received text. The result \<open>Inr ()\<close> means
  that the loop goes on to the next \<^verbatim>\<open>receive_text\<close>. Only \<^verbatim>\<open>JSONDecodeError\<close> is
  caught around \<^verbatim>\<open>json.loads\<close>; any other exception ends the coroutine.\<close>

definition on_message ::
  "(nat \<Rightarrow> bool) \<Rightarrow> system \<Rightarrow> nat \<Rightarrow> string \<Rightarrow> string \<Rightarrow> string \<Rightarrow> parsed \<Rightarrow>
   real \<Rightarrow> real \<Rightarrow> real \<Rightarrow> unit result" where
  "on_message dead s w sid client_id r raw t1 t2 t3 =
     (case raw of
        JSONDecodeError \<Rightarrow>
          unicast dead s w (JObj [(''type'', JStr ''error''), (''message'', JStr ''Bad JSON'')])
      | LoadsRaised e \<Rightarrow> (Inl e, s, [])
      | Loaded data \<Rightarrow>
          (case get_type data of
             Inl e \<Rightarrow> (Inl e, s, [])
           | Inr msg_type \<Rightarrow>
               (if msg_type = JStr ''buzz'' \<and> r = ''participant''
                then on_buzz dead s w sid client_id t1 t2 t3
                else if msg_type = JStr ''ping''
                then unicast dead s w (JObj [(''type'', JStr ''pong''), (''ts'', JFloat t1)])
                else (Inr (), s, []))))"

text \<open>The handler of \<^verbatim>\<open>WebSocketDisconnect\<close>.\<close>

definition mark_disconnected :: "(string \<times> TeamInfo) list \<Rightarrow> string \<Rightarrow> string \<Rightarrow> (string \<times> TeamInfo) list" where
  "mark_disconnected db r client_id =
     (case map_of db client_id of
        None \<Rightarrow> db
      | Some t \<Rightarrow> (if r = ''participant''
                  then AList.update client_id (t\<lparr>is_connected := False\<rparr>) db
                  else db))"

definition on_disconnect :: "(nat \<Rightarrow> bool) \<Rightarrow> system \<Rightarrow> string \<Rightarrow> string \<Rightarrow> string \<Rightarrow> unit result" where
  "on_disconnect dead s sid client_id r =
     (let s1 = s\<lparr>connections := disconnect (connections s) sid client_id,
                 teams_db := mark_disconnected (teams_db s) r client_id\<rparr>;
          (evs, conns') =
            broadcast dead (connections s1) sid
              (JObj ([(''type'', JStr ''opponent_disconnected''), (''team_id'', JStr client_id)]
                     @ get_duel_payload (teams_db s1)))
              None
      in (Inr (), s1\<lparr>connections := conns'\<rparr>, evs))"

section \<open>Reachable states\<close>

text \<open>
  The states of the running server: the seeded state, closed under the administrative
  operations and the three parts of the WebSocket endpoint, with any arguments and any
  behaviour of the channels.
\<close>

inductive reachable :: "system \<Rightarrow> bool" where
  r_seed: "reachable seed_initial_data"
| r_enable: "reachable s \<Longrightarrow> reachable (fst (snd (enable_buzzer dead s sid)))"
| r_disable: "reachable s \<Longrightarrow> reachable (fst (snd (disable_buzzer dead s sid)))"
| r_reset: "reachable s \<Longrightarrow> reachable (fst (snd (reset_buzzer dead s sid)))"
| r_update_score: "reachable s \<Longrightarrow> reachable (fst (snd (update_score dead s tid delta)))"
| r_reset_scores: "reachable s \<Longrightarrow> reachable (fst (snd (reset_scores dead s)))"
| r_set_teams: "reachable s \<Longrightarrow> reachable (fst (snd (set_teams dead lower s ia na ib nb)))"
| r_panic: "reachable s \<Longrightarrow> reachable (fst (snd (panic_button dead s)))"
| r_open: "reachable s \<Longrightarrow> reachable (fst (snd (websocket_open dead verify s w sid token now)))"
| r_message: "reachable s \<Longrightarrow> reachable (fst (snd (on_message dead s w sid cid r raw t1 t2 t3)))"
| r_disconnect: "reachable s \<Longrightarrow> reachable (fst (snd (on_disconnect dead s sid cid r)))"

section \<open>Scenarios\<close>

text \<open>\<^verbatim>\<open>self._log.get(client_id, [])\<close>: the ledger of a client.\<close>

definition ledger :: "RateLimiter \<Rightarrow> string \<Rightarrow> real list" where
  "ledger rl client_id = (case rl_log rl client_id of None \<Rightarrow> [] | Some es \<Rightarrow> es)"

text \<open>The text \<^verbatim>\<open>{"type": "buzz"}\<close> after \<^verbatim>\<open>json.loads\<close>.\<close>

definition buzz_msg :: parsed where
  "buzz_msg = Loaded (JObj [(''type'', JStr ''buzz'')])"

text \<open>
  The participant \<^verbatim>\<open>gadzit\<close> on channel 1 of session \<^verbatim>\<open>main\<close> sends a buzz that is
  handled at clock value \<open>t\<close>, on channels that all accept their sends.
\<close>

definition buzz_at :: "system \<Rightarrow> real \<Rightarrow> unit result" where
  "buzz_at s t = on_message (\<lambda>w. False) s 1 ''main'' ''gadzit'' ''participant'' buzz_msg t t t"

text \<open>The seeded server after buzzes of \<^verbatim>\<open>gadzit\<close> at 0, 1 and 2.\<close>

definition after_three :: system where
  "after_three =
     fst (snd (buzz_at (fst (snd (buzz_at (fst (snd (buzz_at seed_initial_data 0))) 1))) 2))"

text \<open>The seeded server with the buzzer enabled once (question 1).\<close>

definition enabled_seed :: system where
  "enabled_seed = fst (snd (enable_buzzer (\<lambda>w. False) seed_initial_data ''main''))"

text \<open>Then \<^verbatim>\<open>gadzit\<close> buzzes at 7 and wins.\<close>

definition locked_seed :: system where
  "locked_seed = fst (snd (buzz_at enabled_seed 7))"

text \<open>Then the administrator disables the buzzer.\<close>

definition disabled_after_win :: system where
  "disabled_after_win = fst (snd (disable_buzzer (\<lambda>w. False) locked_seed ''main''))"

text \<open>The server on which \<^verbatim>\<open>gadzit\<close> has buzzed at 0, 1 and 2, with the buzzer enabled
  afterwards.\<close>

definition enabled_after_three :: system where
  "enabled_after_three = fst (snd (enable_buzzer (\<lambda>w. False) after_three ''main''))"

subsection \<open>Sequences of buzzes\<close>

text \<open>
  A buzz of a participant: the channel it arrives on, the client id of the channel, and
  the three clock values read while it is handled. The handlers of the connections are
  coroutines of one event loop, and the buzz branch has no \<^verbatim>\<open>await\<close> before its
  first send, so buzzes issued together are handled one after another, in some order.
\<close>

record attempt =
  a_ws :: nat
  a_client :: string
  a_t1 :: real
  a_t2 :: real
  a_t3 :: real

definition attempt_step :: "(nat \<Rightarrow> bool) \<Rightarrow> string \<Rightarrow> system \<Rightarrow> attempt \<Rightarrow> unit result" where
  "attempt_step dead sid s a =
     on_message dead s (a_ws a) sid (a_client a) ''participant'' buzz_msg (a_t1 a) (a_t2 a) (a_t3 a)"

definition state_of :: "system \<Rightarrow> string \<Rightarrow> BuzzerState option" where
  "state_of s sid = map_option buzzer_state (sessions s sid)"

text \<open>An attempt wins when it takes the session from enabled to locked.\<close>

definition wins :: "(nat \<Rightarrow> bool) \<Rightarrow> string \<Rightarrow> system \<Rightarrow> attempt \<Rightarrow> bool" where
  "wins dead sid s a =
     (state_of s sid = Some ENABLED
      \<and> state_of (fst (snd (attempt_step dead sid s a))) sid = Some LOCKED)"

fun run_attempts :: "(nat \<Rightarrow> bool) \<Rightarrow> string \<Rightarrow> system \<Rightarrow> attempt list \<Rightarrow> system" where
  "run_attempts dead sid s [] = s"
| "run_attempts dead sid s (a # rest) =
     run_attempts dead sid (fst (snd (attempt_step dead sid s a))) rest"

fun winners :: "(nat \<Rightarrow> bool) \<Rightarrow> string \<Rightarrow> system \<Rightarrow> attempt list \<Rightarrow> attempt list" where
  "winners dead sid s [] = []"
| "winners dead sid s (a # rest) =
     (if wins dead sid s a then [a] else [])
     @ winners dead sid (fst (snd (attempt_step dead sid s a))) rest"

subsection \<open>Invariants\<close>

text \<open>The invariant of winner and timestamp, in the words of the specification.\<close>

definition winner_timestamp_spec :: "SessionState \<Rightarrow> bool" where
  "winner_timestamp_spec sess =
     ((buzzer_winner sess = None) = (buzzer_timestamp sess = None)
      \<and> (buzzer_state sess = DISABLED \<or> buzzer_state sess = ENABLED \<longrightarrow>
            buzzer_winner sess = None \<and> buzzer_timestamp sess = None)
      \<and> (buzzer_state sess = LOCKED \<longrightarrow>
            buzzer_winner sess \<noteq> None \<and> buzzer_timestamp sess \<noteq> None))"

text \<open>The part of it that the operations keep.\<close>

definition session_ok :: "SessionState \<Rightarrow> bool" where
  "session_ok sess =
     ((buzzer_state sess = ENABLED \<longrightarrow>
         buzzer_winner sess = None \<and> buzzer_timestamp sess = None)
      \<and> (buzzer_state sess = LOCKED \<longrightarrow>
            buzzer_winner sess \<noteq> None \<and> buzzer_timestamp sess \<noteq> None)
      \<and> (buzzer_winner sess \<noteq> None \<longrightarrow> buzzer_timestamp sess \<noteq> None))"

text \<open>Every session's dictionary of connections has each client id once.\<close>

definition registry_distinct :: "registry \<Rightarrow> bool" where
  "registry_distinct conns = (\<forall>sid inner. conns sid = Some inner \<longrightarrow> distinct (map fst inner))"

subsection \<open>Reading a reply\<close>

text \<open>A field of a JSON object, and of the message of a successful send.\<close>

definition field :: "string \<Rightarrow> json \<Rightarrow> json option" where
  "field k v = (case v of JObj kv \<Rightarrow> map_of kv k | _ \<Rightarrow> None)"

definition sent_field :: "string \<Rightarrow> event \<Rightarrow> json option" where
  "sent_field k e = (case e of Sent w m \<Rightarrow> field k m | _ \<Rightarrow> None)"

text \<open>The codes of the close calls among some events.\<close>

definition close_codes :: "event list \<Rightarrow> int list" where
  "close_codes evs = concat (map (\<lambda>e. case e of Closed w c r \<Rightarrow> [c] | _ \<Rightarrow> []) evs)"

subsection \<open>Connections\<close>

text \<open>\<^verbatim>\<open>verify_ws_token\<close> on a token issued to the participant \<^verbatim>\<open>gadzit\<close>.\<close>

definition gadzit_token :: "string \<Rightarrow> (string \<times> string) option" where
  "gadzit_token tok = Some (''gadzit'', ''participant'')"

text \<open>\<^verbatim>\<open>gadzit\<close> connects to the seeded server on socket 1.\<close>

definition first_tab :: system where
  "first_tab =
     fst (snd (websocket_open (\<lambda>w. False) gadzit_token seed_initial_data 1 ''main''
                 (Some ''t'') 10))"

text \<open>\<^verbatim>\<open>gadzit\<close> connects again, on socket 2; \<^verbatim>\<open>connect\<close> closes socket 1.\<close>

definition second_tab :: system where
  "second_tab =
     fst (snd (websocket_open (\<lambda>w. False) gadzit_token first_tab 2 ''main'' (Some ''t'') 11))"

text \<open>
  The endpoint coroutine of socket 1 then leaves \<^verbatim>\<open>receive_text\<close> with
  \<^verbatim>\<open>WebSocketDisconnect\<close> and runs its handler, with its own client id and role.
\<close>

definition after_old_cleanup :: system where
  "after_old_cleanup =
     fst (snd (on_disconnect (\<lambda>w. False) second_tab ''main'' ''gadzit'' ''participant''))"

text \<open>A registry with four channels on the session \<^verbatim>\<open>main\<close>.\<close>

definition four_channels :: registry where
  "four_channels =
     [''main'' \<mapsto> [(''gadzit'', \<lparr>ws = 1, role = ''participant''\<rparr>),
                   (''phoenix'', \<lparr>ws = 2, role = ''participant''\<rparr>),
                   (''screen'', \<lparr>ws = 3, role = ''screen''\<rparr>),
                   (''admin'', \<lparr>ws = 4, role = ''admin''\<rparr>)]]"

section \<open>Rate limiter: the sliding window\<close>

lemma is_limited_log:
  "rl_log (snd (is_limited rl cid now)) =
     (rl_log rl)(cid \<mapsto> filter (\<lambda>t. now - t < window rl) (ledger rl cid))"
  by (simp add: is_limited_def ledger_def Let_def)

lemma is_limited_no_older:
  "filter (\<lambda>t. t < now - window rl) (ledger (snd (is_limited rl cid now)) cid) = []"
  by (auto simp: is_limited_def ledger_def Let_def filter_empty_conv)

lemma is_limited_answer:
  "fst (is_limited rl cid now) =
     (max_events rl \<le> int (length (ledger (snd (is_limited rl cid now)) cid)))"
  by (simp add: is_limited_def ledger_def Let_def)

lemma is_limited_config:
  "max_events (snd (is_limited rl cid now)) = max_events rl"
  "window (snd (is_limited rl cid now)) = window rl"
  by (simp_all add: is_limited_def Let_def)

lemmas buzz_eval =
  buzz_at_def buzz_msg_def on_message_def on_buzz_def get_type_def is_limited_def
  rl_record_def seed_initial_data_def RateLimiter_init_def unicast_def Let_def

lemma after_three_limiter:
  "rate_limiter after_three =
     \<lparr>max_events = 3, window = 5, rl_log = [''gadzit'' \<mapsto> [0, 1, 2]]\<rparr>"
  by (simp add: after_three_def buzz_eval)

lemma fourth_is_limited:
  "snd (snd (buzz_at after_three 3)) =
     [Sent 1 (JObj [(''type'', JStr ''error''), (''message'', JStr ''Rate limited'')])]"
  by (simp add: after_three_def buzz_eval)

lemma sixth_second_admitted:
  "snd (snd (buzz_at (fst (snd (buzz_at after_three 3))) 6)) =
     [Sent 1 (JObj [(''type'', JStr ''buzz_rejected''), (''reason'', JStr ''not_enabled'')])]"
  by (simp add: after_three_def buzz_eval)

lemma sixth_second_ledger:
  "ledger (rate_limiter (fst (snd (buzz_at (fst (snd (buzz_at after_three 3))) 6)))) ''gadzit''
     = [2, 6]"
  by (simp add: after_three_def buzz_eval ledger_def)

text \<open>
  C5. \<^verbatim>\<open>is_limited\<close> writes back the client's ledger restricted to the entries \<open>t\<close>
  with \<open>now - t < window\<close>, so that no entry older than \<open>now - window\<close> is left, changes
  nothing else of the limiter, and answers true exactly when the number of retained
  entries is at least \<open>max_events\<close>. With the default limiter (3 events, 5 seconds) and
  buzzes of one client handled at 0, 1 and 2, the ledger is \<open>[0, 1, 2]\<close>; a fourth buzz
  at 3 is limited (the answer is the error message \<^verbatim>\<open>Rate limited\<close>); a buzz at 6 is
  admitted: it passes the limiter, reaches the state check, and is recorded, leaving
  the ledger \<open>[2, 6]\<close>.
\<close>

theorem rate_limiter_window:
  "rl_log (snd (is_limited rl cid now)) =
     (rl_log rl)(cid \<mapsto> filter (\<lambda>t. now - t < window rl) (ledger rl cid))
   \<and> filter (\<lambda>t. t < now - window rl) (ledger (snd (is_limited rl cid now)) cid) = []
   \<and> fst (is_limited rl cid now) =
       (max_events rl \<le> int (length (ledger (snd (is_limited rl cid now)) cid)))
   \<and> max_events (snd (is_limited rl cid now)) = max_events rl
   \<and> window (snd (is_limited rl cid now)) = window rl
   \<and> ledger (rate_limiter after_three) ''gadzit'' = [0, 1, 2]
   \<and> fst (is_limited (rate_limiter after_three) ''gadzit'' 3)
   \<and> snd (snd (buzz_at after_three 3)) =
       [Sent 1 (JObj [(''type'', JStr ''error''), (''message'', JStr ''Rate limited'')])]
   \<and> \<not> fst (is_limited (rate_limiter (fst (snd (buzz_at after_three 3)))) ''gadzit'' 6)
   \<and> snd (snd (buzz_at (fst (snd (buzz_at after_three 3))) 6)) =
       [Sent 1 (JObj [(''type'', JStr ''buzz_rejected''), (''reason'', JStr ''not_enabled'')])]
   \<and> ledger (rate_limiter (fst (snd (buzz_at (fst (snd (buzz_at after_three 3))) 6)))) ''gadzit''
       = [2, 6]"
proof -
  have e1: "ledger (rate_limiter after_three) ''gadzit'' = [0, 1, 2]"
    by (simp add: after_three_limiter ledger_def)
  have e2: "fst (is_limited (rate_limiter after_three) ''gadzit'' 3)"
    by (simp add: after_three_limiter is_limited_def)
  have e3: "\<not> fst (is_limited (rate_limiter (fst (snd (buzz_at after_three 3)))) ''gadzit'' 6)"
    by (simp add: after_three_def buzz_eval)
  show ?thesis
    using is_limited_log is_limited_no_older is_limited_answer is_limited_config
      e1 e2 e3 fourth_is_limited sixth_second_admitted sixth_second_ledger
    by blast
qed

theorem rate_limiter_window_witness:
  "fst (is_limited \<lparr>max_events = 3, window = 5, rl_log = [''a'' \<mapsto> [0, 1, 2]]\<rparr> ''a'' 6) = False
   \<and> rl_log (snd (is_limited \<lparr>max_events = 3, window = 5, rl_log = [''a'' \<mapsto> [0, 1, 2]]\<rparr> ''a'' 6))
       = [''a'' \<mapsto> [2]]"
  using rate_limiter_window
    [of "\<lparr>max_events = 3, window = 5, rl_log = [''a'' \<mapsto> [0, 1, 2]]\<rparr>" "''a''" 6]
  by (simp add: ledger_def)

section \<open>What a broadcast leaves alone\<close>

lemma returning_state: "fst (snd (returning r v)) = fst (snd r)"
  by (cases r) (auto simp: returning_def split: sum.splits)

lemma returning_events: "snd (snd (returning r v)) = snd (snd r)"
  by (cases r) (auto simp: returning_def split: sum.splits)

lemma returning_ok: "fst r = Inr () \<Longrightarrow> fst (returning r v) = Inr (v (fst (snd r)))"
  by (cases r) (auto simp: returning_def split: sum.splits)

lemma broadcast_state_keeps:
  "teams_db (fst (snd (broadcast_state dead s sid))) = teams_db s"
  "sessions (fst (snd (broadcast_state dead s sid))) = sessions s"
  "rate_limiter (fst (snd (broadcast_state dead s sid))) = rate_limiter s"
  by (auto simp: broadcast_state_def split: option.splits prod.splits)

lemma broadcast_state_ok:
  "sessions s sid = Some session \<Longrightarrow> fst (broadcast_state dead s sid) = Inr ()"
  by (auto simp: broadcast_state_def split: option.splits prod.splits)

section \<open>Score adjustment\<close>

lemma update_score_absent:
  "map_of (teams_db s) tid = None \<Longrightarrow>
   update_score dead s tid delta = (Inl (HTTPException 404 ''Team not found''), s, [])"
  by (simp add: update_score_def)

lemma update_score_db:
  "map_of (teams_db s) tid = Some team \<Longrightarrow>
   teams_db (fst (snd (update_score dead s tid delta))) =
     AList.update tid (team\<lparr>score := max 0 (score team + delta)\<rparr>) (teams_db s)"
  by (simp add: update_score_def Let_def returning_state broadcast_state_keeps)

lemma update_score_response:
  "map_of (teams_db s) tid = Some team \<Longrightarrow> sessions s ''main'' = Some session \<Longrightarrow>
   fst (update_score dead s tid delta) =
     Inr (JObj [(''team_id'', JStr tid), (''new_score'', JInt (max 0 (score team + delta)))])"
  by (simp add: update_score_def Let_def returning_ok broadcast_state_ok)

text \<open>
  C9. When the team is in \<^verbatim>\<open>teams_db\<close>, \<^verbatim>\<open>update_score\<close> stores
  \<open>max 0 (score + delta)\<close> as its score, leaves every other team and the order of the
  roster as they were, and (the session \<^verbatim>\<open>main\<close> existing) returns the new score.
  When the team is absent it raises the 404 \<^verbatim>\<open>Team not found\<close> and the whole state,
  so every score, is unchanged. A team brought to 30 and then adjusted by -100 has
  score 0.
\<close>

theorem update_score_floor:
  "(map_of (teams_db s) tid = Some team \<longrightarrow>
      map_of (teams_db (fst (snd (update_score dead s tid delta)))) tid =
        Some (team\<lparr>score := max 0 (score team + delta)\<rparr>)
      \<and> (\<forall>k. k \<noteq> tid \<longrightarrow>
            map_of (teams_db (fst (snd (update_score dead s tid delta)))) k = map_of (teams_db s) k)
      \<and> map fst (teams_db (fst (snd (update_score dead s tid delta)))) = map fst (teams_db s)
      \<and> (sessions s ''main'' \<noteq> None \<longrightarrow>
            fst (update_score dead s tid delta) =
              Inr (JObj [(''team_id'', JStr tid),
                         (''new_score'', JInt (max 0 (score team + delta)))])))
   \<and> (map_of (teams_db s) tid = None \<longrightarrow>
        update_score dead s tid delta = (Inl (HTTPException 404 ''Team not found''), s, []))
   \<and> map_option score (map_of (teams_db (fst (snd (update_score dead
        (fst (snd (update_score dead seed_initial_data ''gadzit'' 30))) ''gadzit'' (- 100)))))
        ''gadzit'')
      = Some 0"
proof (intro conjI impI allI)
  assume a: "map_of (teams_db s) tid = Some team"
  show "map_of (teams_db (fst (snd (update_score dead s tid delta)))) tid =
        Some (team\<lparr>score := max 0 (score team + delta)\<rparr>)"
    by (simp add: update_score_db [OF a] update_conv')
  show "map_of (teams_db (fst (snd (update_score dead s tid delta)))) k = map_of (teams_db s) k"
    if "k \<noteq> tid" for k
    using that by (simp add: update_score_db [OF a] update_conv')
  have "tid \<in> fst ` set (teams_db s)"
    using map_of_SomeD [OF a] by force
  then show "map fst (teams_db (fst (snd (update_score dead s tid delta)))) = map fst (teams_db s)"
    by (simp add: update_score_db [OF a] update_keys)
  show "fst (update_score dead s tid delta) =
          Inr (JObj [(''team_id'', JStr tid),
                     (''new_score'', JInt (max 0 (score team + delta)))])"
    if "sessions s ''main'' \<noteq> None"
    using that update_score_response [OF a] by auto
next
  assume "map_of (teams_db s) tid = None"
  then show "update_score dead s tid delta = (Inl (HTTPException 404 ''Team not found''), s, [])"
    by (rule update_score_absent)
next
  show "map_option score (map_of (teams_db (fst (snd (update_score dead
        (fst (snd (update_score dead seed_initial_data ''gadzit'' 30))) ''gadzit'' (- 100)))))
        ''gadzit'')
      = Some 0"
    by (simp add: update_score_def seed_initial_data_def new_team_def Let_def
        returning_state broadcast_state_keeps)
qed

theorem update_score_floor_witness:
  "map_of (teams_db (fst (snd (update_score (\<lambda>w. False) seed_initial_data ''phoenix'' (- 7)))))
     ''phoenix'' = Some (new_team ''phoenix'' ''Phoenix'')
   \<and> fst (update_score (\<lambda>w. False) seed_initial_data ''phoenix'' (- 7)) =
       Inr (JObj [(''team_id'', JStr ''phoenix''), (''new_score'', JInt 0)])
   \<and> update_score (\<lambda>w. False) seed_initial_data ''nobody'' 5 =
       (Inl (HTTPException 404 ''Team not found''), seed_initial_data, [])"
  using update_score_floor
      [of seed_initial_data "''phoenix''" "new_team ''phoenix'' ''Phoenix''" "\<lambda>w. False" "- 7"]
    update_score_floor [of seed_initial_data "''nobody''" undefined "\<lambda>w. False" 5]
  by (simp add: seed_initial_data_def new_team_def)

section \<open>The sessions after each operation\<close>

lemma enable_sessions:
  "sessions (fst (snd (enable_buzzer dead s sid))) = sessions s \<or>
   (\<exists>session. sessions s sid = Some session \<and>
      sessions (fst (snd (enable_buzzer dead s sid))) =
        (sessions s)(sid \<mapsto> session\<lparr>buzzer_state := ENABLED, buzzer_winner := None,
           buzzer_timestamp := None, question_number := question_number session + 1\<rparr>))"
  by (auto simp: enable_buzzer_def get_session_def Let_def returning_state broadcast_state_keeps
      split: option.splits)

lemma disable_sessions:
  "sessions (fst (snd (disable_buzzer dead s sid))) =
     (case sessions s sid of None \<Rightarrow> sessions s
      | Some session \<Rightarrow> (sessions s)(sid \<mapsto> session\<lparr>buzzer_state := DISABLED\<rparr>))"
  by (auto simp: disable_buzzer_def Let_def returning_state broadcast_state_keeps split: option.splits)

lemma reset_sessions:
  "sessions (fst (snd (reset_buzzer dead s sid))) =
     (case sessions s sid of None \<Rightarrow> sessions s
      | Some session \<Rightarrow> (sessions s)(sid \<mapsto> session\<lparr>buzzer_state := DISABLED,
           buzzer_winner := None, buzzer_timestamp := None\<rparr>))"
  by (auto simp: reset_buzzer_def Let_def returning_state broadcast_state_keeps split: option.splits)

lemma update_score_sessions:
  "sessions (fst (snd (update_score dead s tid delta))) = sessions s"
  by (auto simp: update_score_def Let_def returning_state broadcast_state_keeps split: option.splits)

lemma reset_scores_sessions:
  "sessions (fst (snd (reset_scores dead s))) = clear_main (sessions s)"
  by (simp add: reset_scores_def Let_def returning_state broadcast_state_keeps)

lemma set_teams_sessions:
  "sessions (fst (snd (set_teams dead lower s ia na ib nb))) = clear_main (sessions s)"
  by (simp add: set_teams_def Let_def returning_state broadcast_state_keeps)

lemma panic_sessions:
  "sessions (fst (snd (panic_button dead s))) =
     (case sessions s ''main'' of None \<Rightarrow> sessions s
      | Some session \<Rightarrow> (sessions s)(''main'' \<mapsto> session\<lparr>buzzer_state := DISABLED,
           buzzer_winner := None, buzzer_timestamp := None\<rparr>))"
  by (simp add: panic_button_def Let_def returning_state broadcast_state_keeps)

lemma open_sessions:
  "sessions (fst (snd (websocket_open dead verify s w sid token now))) = sessions s"
  by (auto simp: websocket_open_def Let_def split: option.splits prod.splits)

lemma unicast_state: "fst (snd (unicast dead s w m)) = s"
  by (simp add: unicast_def)

lemma on_buzz_sessions:
  "sessions (fst (snd (on_buzz dead s w sid cid t1 t2 t3))) = sessions s \<or>
   (\<exists>session. sessions s sid = Some session \<and> buzzer_state session = ENABLED \<and>
      sessions (fst (snd (on_buzz dead s w sid cid t1 t2 t3))) =
        (sessions s)(sid \<mapsto> session\<lparr>buzzer_state := LOCKED, buzzer_winner := Some cid,
           buzzer_timestamp := Some t3\<rparr>))"
  by (auto simp: on_buzz_def Let_def unicast_state split: option.splits prod.splits)

lemma on_message_sessions:
  "sessions (fst (snd (on_message dead s w sid cid r raw t1 t2 t3))) = sessions s \<or>
   (\<exists>session. sessions s sid = Some session \<and> buzzer_state session = ENABLED \<and>
      sessions (fst (snd (on_message dead s w sid cid r raw t1 t2 t3))) =
        (sessions s)(sid \<mapsto> session\<lparr>buzzer_state := LOCKED, buzzer_winner := Some cid,
           buzzer_timestamp := Some t3\<rparr>))"
  using on_buzz_sessions [of dead s w sid cid t1 t2 t3]
  by (auto simp: on_message_def unicast_state split: parsed.splits sum.splits)

lemma on_disconnect_sessions:
  "sessions (fst (snd (on_disconnect dead s sid cid r))) = sessions s"
  by (auto simp: on_disconnect_def Let_def split: prod.splits)

lemma clear_main_ok:
  "(\<And>k v. ss k = Some v \<Longrightarrow> session_ok v) \<Longrightarrow> clear_main ss k = Some v \<Longrightarrow> session_ok v"
  by (auto simp: clear_main_def session_ok_def split: option.splits if_splits)

lemma reachable_ok: "reachable s \<Longrightarrow> sessions s k = Some v \<Longrightarrow> session_ok v"
proof (induction arbitrary: k v rule: reachable.induct)
  case r_seed
  then show ?case by (auto simp: seed_initial_data_def session_ok_def split: if_splits)
next
  case (r_enable s dead sid)
  then show ?case using enable_sessions [of dead s sid]
    by (auto simp: session_ok_def split: if_splits)
next
  case (r_disable s dead sid)
  then show ?case
    by (auto simp: disable_sessions session_ok_def split: if_splits option.splits)
next
  case (r_reset s dead sid)
  then show ?case
    by (auto simp: reset_sessions session_ok_def split: if_splits option.splits)
next
  case (r_update_score s dead tid delta)
  then show ?case by (simp add: update_score_sessions)
next
  case (r_reset_scores s dead)
  then show ?case using clear_main_ok [of "sessions s" k v] by (simp add: reset_scores_sessions)
next
  case (r_set_teams s dead lower ia na ib nb)
  then show ?case using clear_main_ok [of "sessions s" k v] by (simp add: set_teams_sessions)
next
  case (r_panic s dead)
  then show ?case
    by (auto simp: panic_sessions session_ok_def split: if_splits option.splits)
next
  case (r_open s dead verify w sid token now)
  then show ?case by (simp add: open_sessions)
next
  case (r_message s dead w sid cid r raw t1 t2 t3)
  then show ?case using on_message_sessions [of dead s w sid cid r raw t1 t2 t3]
    by (auto simp: session_ok_def split: if_splits)
next
  case (r_disconnect s dead sid cid r)
  then show ?case by (simp add: on_disconnect_sessions)
qed


section \<open>Enabling the buzzer\<close>


lemma enable_open_state:
  "sessions s sid = Some session \<Longrightarrow> buzzer_state session \<noteq> LOCKED \<Longrightarrow>
   sessions (fst (snd (enable_buzzer dead s sid))) =
     (sessions s)(sid \<mapsto> session\<lparr>buzzer_state := ENABLED, buzzer_winner := None,
        buzzer_timestamp := None, question_number := question_number session + 1\<rparr>)
   \<and> teams_db (fst (snd (enable_buzzer dead s sid))) = teams_db s
   \<and> rate_limiter (fst (snd (enable_buzzer dead s sid))) = rate_limiter s"
  by (simp add: enable_buzzer_def get_session_def Let_def returning_state broadcast_state_keeps)


lemma enabled_seed_session:
  "sessions enabled_seed ''main'' =
     Some \<lparr>session_id = ''main'', buzzer_state = ENABLED, buzzer_winner = None,
           buzzer_timestamp = None, question_number = 1\<rparr>"
  by (simp add: enabled_seed_def enable_buzzer_def get_session_def seed_initial_data_def
      Let_def returning_state broadcast_state_keeps)

lemma locked_seed_session:
  "sessions locked_seed ''main'' =
     Some \<lparr>session_id = ''main'', buzzer_state = LOCKED, buzzer_winner = Some ''gadzit'',
           buzzer_timestamp = Some 7, question_number = 1\<rparr>"
  by (simp add: locked_seed_def enabled_seed_def enable_buzzer_def get_session_def Let_def
      returning_def broadcast_state_def broadcast_def buzz_eval new_team_def)

lemma disabled_after_win_session:
  "sessions disabled_after_win ''main'' =
     Some \<lparr>session_id = ''main'', buzzer_state = DISABLED, buzzer_winner = Some ''gadzit'',
           buzzer_timestamp = Some 7, question_number = 1\<rparr>"
  by (simp add: disabled_after_win_def disable_sessions locked_seed_session)

lemma reachable_enabled_seed: "reachable enabled_seed"
  unfolding enabled_seed_def by (intro reachable.intros)

lemma reachable_locked_seed: "reachable locked_seed"
  unfolding locked_seed_def buzz_at_def by (intro reachable.intros reachable_enabled_seed)

lemma reachable_disabled_after_win: "reachable disabled_after_win"
  unfolding disabled_after_win_def by (intro reachable.intros reachable_locked_seed)



section \<open>Winner and timestamp\<close>

text \<open>
  C2, as stated, fails: after \<^verbatim>\<open>enable_buzzer\<close>, a winning buzz and
  \<^verbatim>\<open>disable_buzzer\<close> the session is disabled with winner and timestamp still set,
  because \<^verbatim>\<open>disable_buzzer\<close> assigns the state only.
\<close>

theorem winner_timestamp_counterexample:
  "reachable disabled_after_win
   \<and> sessions disabled_after_win ''main'' =
       Some \<lparr>session_id = ''main'', buzzer_state = DISABLED, buzzer_winner = Some ''gadzit'',
             buzzer_timestamp = Some 7, question_number = 1\<rparr>
   \<and> \<not> winner_timestamp_spec
         \<lparr>session_id = ''main'', buzzer_state = DISABLED, buzzer_winner = Some ''gadzit'',
          buzzer_timestamp = Some 7, question_number = 1\<rparr>"
  by (simp add: reachable_disabled_after_win disabled_after_win_session winner_timestamp_spec_def)

text \<open>
  C2, amended. In every reachable state, hence after every operation, each session
  has winner and timestamp both unset when it is enabled and both set when it is locked,
  and a winner never comes without a timestamp. A disabled session may keep them.
\<close>

theorem winner_timestamp_invariant:
  "reachable s \<Longrightarrow> sessions s sid = Some sess \<Longrightarrow>
   (buzzer_state sess = ENABLED \<longrightarrow> buzzer_winner sess = None \<and> buzzer_timestamp sess = None)
   \<and> (buzzer_state sess = LOCKED \<longrightarrow>
         buzzer_winner sess \<noteq> None \<and> buzzer_timestamp sess \<noteq> None)
   \<and> (buzzer_winner sess \<noteq> None \<longrightarrow> buzzer_timestamp sess \<noteq> None)"
  using reachable_ok [of s sid sess] by (simp add: session_ok_def)

theorem winner_timestamp_invariant_witness:
  "buzzer_state \<lparr>session_id = ''main'', buzzer_state = LOCKED, buzzer_winner = Some ''gadzit'',
           buzzer_timestamp = Some 7, question_number = 1\<rparr> = LOCKED
   \<and> buzzer_winner \<lparr>session_id = ''main'', buzzer_state = LOCKED, buzzer_winner = Some ''gadzit'',
           buzzer_timestamp = Some 7, question_number = 1\<rparr> \<noteq> None"
  using winner_timestamp_invariant [OF reachable_locked_seed locked_seed_session]
  by simp

section \<open>Resetting the scores\<close>

lemma reset_scores_db:
  "teams_db (fst (snd (reset_scores dead s))) =
     map (\<lambda>(k, team). (k, team\<lparr>score := 0\<rparr>)) (teams_db s)"
  by (simp add: reset_scores_def Let_def returning_state broadcast_state_keeps)

lemma reset_scores_zero:
  "map (\<lambda>(k, team). score team) (teams_db (fst (snd (reset_scores dead s)))) =
     replicate (length (teams_db s)) 0"
  by (simp add: reset_scores_db map_replicate_const [symmetric] case_prod_beta comp_def)

lemma reset_scores_main:
  "sessions s ''main'' = Some session \<Longrightarrow>
   sessions (fst (snd (reset_scores dead s))) =
     (sessions s)(''main'' \<mapsto> session\<lparr>question_number := 0, buzzer_state := DISABLED,
                                       buzzer_winner := None\<rparr>)"
  by (simp add: reset_scores_sessions clear_main_def)

text \<open>
  C10. \<^verbatim>\<open>reset_scores\<close> sets every team's score to 0 and, in the session
  \<^verbatim>\<open>main\<close>, the question number to 0, the state to disabled and the winner to None;
  the timestamp keeps its value. From the reachable state in which \<^verbatim>\<open>gadzit\<close> has
  won question 1 at time 7, it leads to question number 0, which is less than 1, with
  the timestamp 7 still there.
\<close>

theorem reset_scores_resets_session:
  "map (\<lambda>(k, team). score team) (teams_db (fst (snd (reset_scores dead s)))) =
     replicate (length (teams_db s)) 0
   \<and> (sessions s ''main'' = Some session \<longrightarrow>
        sessions (fst (snd (reset_scores dead s))) =
          (sessions s)(''main'' \<mapsto> session\<lparr>question_number := 0, buzzer_state := DISABLED,
                                            buzzer_winner := None\<rparr>)
        \<and> map_option buzzer_timestamp (sessions (fst (snd (reset_scores dead s))) ''main'')
            = Some (buzzer_timestamp session))
   \<and> reachable locked_seed
   \<and> map_option question_number (sessions locked_seed ''main'') = Some 1
   \<and> sessions (fst (snd (reset_scores dead locked_seed))) ''main'' =
       Some \<lparr>session_id = ''main'', buzzer_state = DISABLED, buzzer_winner = None,
             buzzer_timestamp = Some 7, question_number = 0\<rparr>"
  using reset_scores_main [of s session dead] reset_scores_main [OF locked_seed_session, of dead]
  by (simp add: reset_scores_zero reachable_locked_seed locked_seed_session)

theorem reset_scores_resets_session_witness:
  "map (\<lambda>(k, team). score team)
     (teams_db (fst (snd (reset_scores (\<lambda>w. False)
        (fst (snd (update_score (\<lambda>w. False) seed_initial_data ''gadzit'' 30))))))) = [0, 0]
   \<and> sessions (fst (snd (reset_scores (\<lambda>w. False) disabled_after_win))) ''main'' =
       Some \<lparr>session_id = ''main'', buzzer_state = DISABLED, buzzer_winner = None,
             buzzer_timestamp = Some 7, question_number = 0\<rparr>"
  using reset_scores_resets_session [of "\<lambda>w. False"
      "fst (snd (update_score (\<lambda>w. False) seed_initial_data ''gadzit'' 30))"]
    reset_scores_resets_session [of "\<lambda>w. False" disabled_after_win
      "\<lparr>session_id = ''main'', buzzer_state = DISABLED, buzzer_winner = Some ''gadzit'',
        buzzer_timestamp = Some 7, question_number = 1\<rparr>"]
  by (simp add: disabled_after_win_session update_score_def seed_initial_data_def new_team_def
      Let_def returning_state broadcast_state_keeps)

section \<open>Rejected buzzes\<close>

lemma on_buzz_limited:
  "fst (is_limited (rate_limiter s) cid t1) \<Longrightarrow>
   on_buzz dead s w sid cid t1 t2 t3 =
     unicast dead (s\<lparr>rate_limiter := snd (is_limited (rate_limiter s) cid t1)\<rparr>) w
       (JObj [(''type'', JStr ''error''), (''message'', JStr ''Rate limited'')])"
  by (cases "is_limited (rate_limiter s) cid t1") (simp add: on_buzz_def)

lemma on_buzz_not_enabled:
  "\<not> fst (is_limited (rate_limiter s) cid t1) \<Longrightarrow> sessions s sid = Some session \<Longrightarrow>
   buzzer_state session \<noteq> ENABLED \<Longrightarrow>
   on_buzz dead s w sid cid t1 t2 t3 =
     unicast dead
       (s\<lparr>rate_limiter := rl_record (snd (is_limited (rate_limiter s) cid t1)) cid t2\<rparr>) w
       (JObj [(''type'', JStr ''buzz_rejected''), (''reason'', JStr ''not_enabled'')])"
  by (cases "is_limited (rate_limiter s) cid t1") (simp add: on_buzz_def Let_def)

lemma on_buzz_missing:
  "sessions s sid = None \<Longrightarrow> sessions (fst (snd (on_buzz dead s w sid cid t1 t2 t3))) = sessions s"
  by (auto simp: on_buzz_def Let_def unicast_state split: prod.splits)

lemma on_buzz_enabled:
  "\<not> fst (is_limited (rate_limiter s) cid t1) \<Longrightarrow> sessions s sid = Some session \<Longrightarrow>
   buzzer_state session = ENABLED \<Longrightarrow>
   sessions (fst (snd (on_buzz dead s w sid cid t1 t2 t3))) =
     (sessions s)(sid \<mapsto> session\<lparr>buzzer_state := LOCKED, buzzer_winner := Some cid,
        buzzer_timestamp := Some t3\<rparr>)"
  by (cases "is_limited (rate_limiter s) cid t1")
    (auto simp: on_buzz_def Let_def split: prod.splits option.splits)

lemma buzz_dispatch:
  "get_type data = Inr (JStr ''buzz'') \<Longrightarrow>
   on_message dead s w sid cid ''participant'' (Loaded data) t1 t2 t3 =
     on_buzz dead s w sid cid t1 t2 t3"
  by (simp add: on_message_def)

lemma get_type_buzz_msg: "get_type (JObj [(''type'', JStr ''buzz'')]) = Inr (JStr ''buzz'')"
  by (simp add: get_type_def)

text \<open>
  C3, amended. A buzz of a participant that is rejected is answered by one message,
  sent on the channel it came from and on no other (the channel accepting the send),
  the session is left as it was and the receive loop goes on. A buzz that the rate
  limiter refuses gets the message of type \<^verbatim>\<open>error\<close> with the text
  \<^verbatim>\<open>Rate limited\<close>. A buzz that passes the limiter while the session is locked or
  disabled gets the message of type \<^verbatim>\<open>buzz_rejected\<close> with the reason
  \<^verbatim>\<open>not_enabled\<close>, the same in both states.
\<close>

theorem buzz_rejection_replies:
  "get_type data = Inr (JStr ''buzz'') \<Longrightarrow> \<not> dead w \<Longrightarrow>
   (fst (is_limited (rate_limiter s) cid t1) \<longrightarrow>
      fst (on_message dead s w sid cid ''participant'' (Loaded data) t1 t2 t3) = Inr ()
      \<and> snd (snd (on_message dead s w sid cid ''participant'' (Loaded data) t1 t2 t3)) =
          [Sent w (JObj [(''type'', JStr ''error''), (''message'', JStr ''Rate limited'')])]
      \<and> sessions (fst (snd (on_message dead s w sid cid ''participant'' (Loaded data) t1 t2 t3)))
          = sessions s)
   \<and> (\<not> fst (is_limited (rate_limiter s) cid t1) \<and> sessions s sid = Some session
        \<and> (buzzer_state session = LOCKED \<or> buzzer_state session = DISABLED) \<longrightarrow>
      fst (on_message dead s w sid cid ''participant'' (Loaded data) t1 t2 t3) = Inr ()
      \<and> snd (snd (on_message dead s w sid cid ''participant'' (Loaded data) t1 t2 t3)) =
          [Sent w (JObj [(''type'', JStr ''buzz_rejected''), (''reason'', JStr ''not_enabled'')])]
      \<and> sessions (fst (snd (on_message dead s w sid cid ''participant'' (Loaded data) t1 t2 t3)))
          = sessions s)"
  using on_buzz_limited [of s cid t1 dead w sid t2 t3]
    on_buzz_not_enabled [of s cid t1 sid session dead w t2 t3]
  by (auto simp: buzz_dispatch unicast_def)

lemma locked_seed_limiter:
  "rate_limiter locked_seed = \<lparr>max_events = 3, window = 5, rl_log = [''gadzit'' \<mapsto> [7]]\<rparr>"
  by (simp add: locked_seed_def enabled_seed_def enable_buzzer_def get_session_def Let_def
      returning_def broadcast_state_def broadcast_def buzz_eval new_team_def)

lemma phoenix_not_limited: "\<not> fst (is_limited (rate_limiter locked_seed) ''phoenix'' 8)"
  by (simp add: locked_seed_limiter is_limited_def)

lemma gadzit_limited: "fst (is_limited (rate_limiter after_three) ''gadzit'' 3)"
  by (simp add: after_three_limiter is_limited_def)

text \<open>
  C3, as stated, fails: a buzz on a locked session is answered with the reason
  \<^verbatim>\<open>not_enabled\<close>, not \<^verbatim>\<open>already_locked\<close>, and a rate-limited buzz is answered
  with a message of type \<^verbatim>\<open>error\<close> that has no reason field.
\<close>

theorem buzz_rejection_counterexample:
  "state_of locked_seed ''main'' = Some LOCKED
   \<and> snd (snd (on_message (\<lambda>w. False) locked_seed 2 ''main'' ''phoenix'' ''participant''
        buzz_msg 8 8 8)) =
       [Sent 2 (JObj [(''type'', JStr ''buzz_rejected''), (''reason'', JStr ''not_enabled'')])]
   \<and> map (sent_field ''reason'')
        (snd (snd (on_message (\<lambda>w. False) locked_seed 2 ''main'' ''phoenix'' ''participant''
           buzz_msg 8 8 8))) \<noteq> [Some (JStr ''already_locked'')]
   \<and> map (sent_field ''type'') (snd (snd (buzz_at after_three 3))) = [Some (JStr ''error'')]
   \<and> map (sent_field ''reason'') (snd (snd (buzz_at after_three 3))) = [None]"
proof -
  have "snd (snd (on_message (\<lambda>w. False) locked_seed 2 ''main'' ''phoenix'' ''participant''
        buzz_msg 8 8 8)) =
       [Sent 2 (JObj [(''type'', JStr ''buzz_rejected''), (''reason'', JStr ''not_enabled'')])]"
    using on_buzz_not_enabled [OF phoenix_not_limited locked_seed_session, of "\<lambda>w. False" 2 8 8]
    by (simp add: buzz_msg_def buzz_dispatch get_type_buzz_msg unicast_def)
  then show ?thesis
    by (simp add: state_of_def locked_seed_session fourth_is_limited sent_field_def field_def)
qed

theorem buzz_rejection_replies_witness:
  "snd (snd (on_message (\<lambda>w. False) locked_seed 2 ''main'' ''phoenix'' ''participant''
        (Loaded (JObj [(''type'', JStr ''buzz'')])) 8 8 8)) =
       [Sent 2 (JObj [(''type'', JStr ''buzz_rejected''), (''reason'', JStr ''not_enabled'')])]
   \<and> snd (snd (on_message (\<lambda>w. False) after_three 1 ''main'' ''gadzit'' ''participant''
        (Loaded (JObj [(''type'', JStr ''buzz'')])) 3 3 3)) =
       [Sent 1 (JObj [(''type'', JStr ''error''), (''message'', JStr ''Rate limited'')])]"
  using buzz_rejection_replies [OF get_type_buzz_msg, of "\<lambda>w. False" 2 locked_seed "''phoenix''" 8
      "''main''" 8 8 "\<lparr>session_id = ''main'', buzzer_state = LOCKED, buzzer_winner = Some ''gadzit'',
           buzzer_timestamp = Some 7, question_number = 1\<rparr>"]
    buzz_rejection_replies [OF get_type_buzz_msg, of "\<lambda>w. False" 1 after_three "''gadzit''" 3
      "''main''" 3 3 undefined]
    gadzit_limited
  by (simp add: locked_seed_session phoenix_not_limited)

section \<open>Unrecognised messages\<close>

text \<open>
  C6, as stated, fails: the message \<^verbatim>\<open>{"type": "hello"}\<close> causes no send at all. The
  dispatch is an \<^verbatim>\<open>if\<close> with one \<^verbatim>\<open>elif\<close> and no \<^verbatim>\<open>else\<close>.
\<close>

theorem unknown_type_counterexample:
  "on_message (\<lambda>w. False) seed_initial_data 1 ''main'' ''gadzit'' ''participant''
     (Loaded (JObj [(''type'', JStr ''hello'')])) 0 0 0 = (Inr (), seed_initial_data, [])"
  by (simp add: on_message_def get_type_def)

text \<open>
  C6, amended. A text on which \<^verbatim>\<open>json.loads\<close> raises \<^verbatim>\<open>JSONDecodeError\<close> is
  answered on the same channel (the channel accepting the send) with the message of
  type \<^verbatim>\<open>error\<close> and text \<^verbatim>\<open>Bad JSON\<close>, and the loop goes on. A JSON object
  whose type is not \<^verbatim>\<open>ping\<close> and is not a participant's \<^verbatim>\<open>buzz\<close> is dropped:
  nothing is sent, the state is unchanged, and the loop goes on.
\<close>

theorem unrecognised_messages:
  "(\<not> dead w \<longrightarrow>
      on_message dead s w sid cid r JSONDecodeError t1 t2 t3 =
        (Inr (), s, [Sent w (JObj [(''type'', JStr ''error''), (''message'', JStr ''Bad JSON'')])]))
   \<and> (get_type data = Inr ty \<and> ty \<noteq> JStr ''ping'' \<and> (ty \<noteq> JStr ''buzz'' \<or> r \<noteq> ''participant'') \<longrightarrow>
        on_message dead s w sid cid r (Loaded data) t1 t2 t3 = (Inr (), s, []))"
  by (auto simp: on_message_def unicast_def)

theorem unrecognised_messages_witness:
  "on_message (\<lambda>w. False) seed_initial_data 1 ''main'' ''screen'' ''screen'' JSONDecodeError 0 0 0 =
     (Inr (), seed_initial_data,
      [Sent 1 (JObj [(''type'', JStr ''error''), (''message'', JStr ''Bad JSON'')])])
   \<and> on_message (\<lambda>w. False) seed_initial_data 1 ''main'' ''screen'' ''screen''
       (Loaded (JObj [(''type'', JStr ''buzz'')])) 0 0 0 = (Inr (), seed_initial_data, [])"
  using unrecognised_messages [of "\<lambda>w. False" 1 seed_initial_data "''main''" "''screen''"
      "''screen''" 0 0 0 "JObj [(''type'', JStr ''buzz'')]" "JStr ''buzz''"]
  by (simp add: get_type_def)

section \<open>At most one winner\<close>

lemma attempt_step_on_buzz:
  "attempt_step dead sid s a = on_buzz dead s (a_ws a) sid (a_client a) (a_t1 a) (a_t2 a) (a_t3 a)"
  by (simp add: attempt_step_def buzz_msg_def buzz_dispatch get_type_buzz_msg)

lemma on_buzz_limited_sessions:
  "fst (is_limited (rate_limiter s) cid t1) \<Longrightarrow>
   sessions (fst (snd (on_buzz dead s w sid cid t1 t2 t3))) = sessions s"
  by (simp add: on_buzz_limited unicast_state)

lemma on_buzz_closed_sessions:
  "map_option buzzer_state (sessions s sid) \<noteq> Some ENABLED \<Longrightarrow>
   sessions (fst (snd (on_buzz dead s w sid cid t1 t2 t3))) = sessions s"
proof (cases "fst (is_limited (rate_limiter s) cid t1)")
  case True
  then show ?thesis by (rule on_buzz_limited_sessions)
next
  case False
  assume closed: "map_option buzzer_state (sessions s sid) \<noteq> Some ENABLED"
  show ?thesis
  proof (cases "sessions s sid")
    case None
    then show ?thesis by (rule on_buzz_missing)
  next
    case (Some session)
    with closed have "buzzer_state session \<noteq> ENABLED" by simp
    from on_buzz_not_enabled [OF False Some this] show ?thesis by (simp add: unicast_state)
  qed
qed

lemma wins_iff:
  "wins dead sid s a =
     (state_of s sid = Some ENABLED
      \<and> \<not> fst (is_limited (rate_limiter s) (a_client a) (a_t1 a)))"
proof (cases "state_of s sid = Some ENABLED")
  case False
  then show ?thesis by (simp add: wins_def)
next
  case True
  then obtain session where s: "sessions s sid = Some session" "buzzer_state session = ENABLED"
    by (auto simp: state_of_def)
  show ?thesis
  proof (cases "fst (is_limited (rate_limiter s) (a_client a) (a_t1 a))")
    case True
    then show ?thesis using s
      by (simp add: wins_def state_of_def attempt_step_on_buzz on_buzz_limited_sessions)
  next
    case False
    from on_buzz_enabled [OF False s] show ?thesis using s False
      by (simp add: wins_def state_of_def attempt_step_on_buzz)
  qed
qed

lemma win_session:
  "wins dead sid s a \<Longrightarrow> sessions s sid = Some session \<Longrightarrow>
   sessions (fst (snd (attempt_step dead sid s a))) =
     (sessions s)(sid \<mapsto> session\<lparr>buzzer_state := LOCKED, buzzer_winner := Some (a_client a),
        buzzer_timestamp := Some (a_t3 a)\<rparr>)"
  using on_buzz_enabled [of s "a_client a" "a_t1 a" sid session dead "a_ws a" "a_t2 a" "a_t3 a"]
  by (simp add: wins_iff state_of_def attempt_step_on_buzz)

lemma closed_step:
  "state_of s sid \<noteq> Some ENABLED \<Longrightarrow>
   sessions (fst (snd (attempt_step dead sid s a))) = sessions s"
  by (simp add: state_of_def attempt_step_on_buzz on_buzz_closed_sessions)

lemma closed_run:
  "state_of s sid \<noteq> Some ENABLED \<Longrightarrow>
   winners dead sid s as = [] \<and> sessions (run_attempts dead sid s as) = sessions s"
proof (induction as arbitrary: s)
  case Nil
  then show ?case by simp
next
  case (Cons a as)
  let ?s' = "fst (snd (attempt_step dead sid s a))"
  have same: "sessions ?s' = sessions s" using Cons.prems by (rule closed_step)
  then have "state_of ?s' sid \<noteq> Some ENABLED" using Cons.prems by (simp add: state_of_def)
  from Cons.IH [OF this] same Cons.prems show ?case by (simp add: wins_def)
qed

lemma win_closes:
  "wins dead sid s a \<Longrightarrow> state_of (fst (snd (attempt_step dead sid s a))) sid \<noteq> Some ENABLED"
  by (simp add: wins_def)

lemma winners_at_most_one: "length (winners dead sid s as) \<le> 1"
proof (induction as arbitrary: s)
  case Nil
  then show ?case by simp
next
  case (Cons a as)
  show ?case
  proof (cases "wins dead sid s a")
    case True
    from closed_run [OF win_closes [OF True]] True show ?thesis by simp
  next
    case False
    with Cons.IH show ?thesis by simp
  qed
qed

lemma first_admitted_wins:
  assumes "sessions s sid = Some session" "buzzer_state session = ENABLED"
    and "\<not> fst (is_limited (rate_limiter s) (a_client a) (a_t1 a))"
  shows "winners dead sid s (a # as) = [a]"
    and "sessions (run_attempts dead sid s (a # as)) =
      (sessions s)(sid \<mapsto> session\<lparr>buzzer_state := LOCKED, buzzer_winner := Some (a_client a),
         buzzer_timestamp := Some (a_t3 a)\<rparr>)"
proof -
  have w: "wins dead sid s a" using assms by (simp add: wins_iff state_of_def)
  from closed_run [OF win_closes [OF w]] w show "winners dead sid s (a # as) = [a]" by simp
  from closed_run [OF win_closes [OF w]] win_session [OF w assms(1)]
  show "sessions (run_attempts dead sid s (a # as)) =
      (sessions s)(sid \<mapsto> session\<lparr>buzzer_state := LOCKED, buzzer_winner := Some (a_client a),
         buzzer_timestamp := Some (a_t3 a)\<rparr>)" by simp
qed

lemma limited_step:
  "fst (is_limited (rate_limiter s) (a_client a) (a_t1 a)) \<Longrightarrow>
   sessions (fst (snd (attempt_step dead sid s a))) = sessions s"
  by (simp add: attempt_step_on_buzz on_buzz_limited_sessions)


lemma after_three_session:
  "sessions after_three ''main'' =
     Some \<lparr>session_id = ''main'', buzzer_state = DISABLED, buzzer_winner = None,
           buzzer_timestamp = None, question_number = 0\<rparr>"
  by (simp add: after_three_def buzz_eval)

lemma reachable_after_three: "reachable after_three"
  unfolding after_three_def buzz_at_def by (intro reachable.intros)

lemma reachable_enabled_after_three: "reachable enabled_after_three"
  unfolding enabled_after_three_def by (intro reachable.intros reachable_after_three)

lemma enabled_after_three_session:
  "sessions enabled_after_three ''main'' =
     Some \<lparr>session_id = ''main'', buzzer_state = ENABLED, buzzer_winner = None,
           buzzer_timestamp = None, question_number = 1\<rparr>"
  using enable_open_state [OF after_three_session, of "\<lambda>w. False"]
  by (simp add: enabled_after_three_def)

lemma enabled_after_three_limiter:
  "rate_limiter enabled_after_three =
     \<lparr>max_events = 3, window = 5, rl_log = [''gadzit'' \<mapsto> [0, 1, 2]]\<rparr>"
  using enable_open_state [OF after_three_session, of "\<lambda>w. False"]
  by (simp add: enabled_after_three_def after_three_limiter)

lemma enabled_seed_limiter: "rate_limiter enabled_seed = RateLimiter_init"
  by (simp add: enabled_seed_def enable_buzzer_def get_session_def seed_initial_data_def
      Let_def returning_state broadcast_state_keeps)

lemma seed_admits: "\<not> fst (is_limited (rate_limiter enabled_seed) cid t)"
  by (simp add: enabled_seed_limiter RateLimiter_init_def is_limited_def)

text \<open>
  C1, as stated, fails: on an enabled session, a buzz of a client whose ledger already
  holds three entries of the last five seconds is refused by the rate limiter before
  the state is looked at, so of this set of attempts none succeeds and the session
  stays enabled.
\<close>

theorem one_winner_counterexample:
  "reachable enabled_after_three
   \<and> state_of enabled_after_three ''main'' = Some ENABLED
   \<and> winners (\<lambda>w. False) ''main'' enabled_after_three
       [\<lparr>a_ws = 1, a_client = ''gadzit'', a_t1 = 3, a_t2 = 3, a_t3 = 3\<rparr>] = []
   \<and> state_of (run_attempts (\<lambda>w. False) ''main'' enabled_after_three
       [\<lparr>a_ws = 1, a_client = ''gadzit'', a_t1 = 3, a_t2 = 3, a_t3 = 3\<rparr>]) ''main'' = Some ENABLED"
proof -
  have lim: "fst (is_limited (rate_limiter enabled_after_three)
      (a_client \<lparr>a_ws = 1, a_client = ''gadzit'', a_t1 = 3, a_t2 = 3, a_t3 = 3\<rparr>)
      (a_t1 \<lparr>a_ws = 1, a_client = ''gadzit'', a_t1 = 3, a_t2 = 3, a_t3 = 3\<rparr>))"
    by (simp add: enabled_after_three_limiter is_limited_def)
  have st: "state_of enabled_after_three ''main'' = Some ENABLED"
    by (simp add: state_of_def enabled_after_three_session)
  show ?thesis
    using limited_step [OF lim, of "\<lambda>w. False" "''main''"] lim st
    by (simp add: reachable_enabled_after_three wins_iff state_of_def)
qed

text \<open>
  C1, amended. Buzzes are handled one after another, in any order. An attempt wins
  exactly when, at its turn, the session is enabled and the rate limiter admits it. So
  from an enabled session the first admitted attempt is the one winner: the session
  becomes locked with that attempt's client id as winner and stays so to the end of the
  sequence, whatever attempts follow. A refused attempt leaves the sessions as they
  are, and from a session that is not enabled nobody wins. In every sequence, hence in
  every order of a set of attempts, at most one attempt wins.
\<close>

theorem at_most_one_winner:
  "length (winners dead sid s as) \<le> 1
   \<and> wins dead sid s a =
       (state_of s sid = Some ENABLED
        \<and> \<not> fst (is_limited (rate_limiter s) (a_client a) (a_t1 a)))
   \<and> (sessions s sid = Some session \<and> buzzer_state session = ENABLED
        \<and> \<not> fst (is_limited (rate_limiter s) (a_client a) (a_t1 a)) \<longrightarrow>
        winners dead sid s (a # as) = [a]
        \<and> sessions (run_attempts dead sid s (a # as)) =
            (sessions s)(sid \<mapsto> session\<lparr>buzzer_state := LOCKED,
               buzzer_winner := Some (a_client a), buzzer_timestamp := Some (a_t3 a)\<rparr>))
   \<and> (fst (is_limited (rate_limiter s) (a_client a) (a_t1 a)) \<longrightarrow>
        sessions (fst (snd (attempt_step dead sid s a))) = sessions s)
   \<and> (state_of s sid \<noteq> Some ENABLED \<longrightarrow>
        winners dead sid s as = [] \<and> sessions (run_attempts dead sid s as) = sessions s)"
  using winners_at_most_one [of dead sid s as] wins_iff [of dead sid s a]
    first_admitted_wins [of s sid session a dead as] limited_step [of s a dead sid]
    closed_run [of s sid dead as]
  by blast

theorem at_most_one_winner_witness:
  "winners (\<lambda>w. False) ''main'' enabled_seed
     [\<lparr>a_ws = 1, a_client = ''gadzit'', a_t1 = 7, a_t2 = 7, a_t3 = 7\<rparr>,
      \<lparr>a_ws = 2, a_client = ''phoenix'', a_t1 = 7, a_t2 = 7, a_t3 = 7\<rparr>]
     = [\<lparr>a_ws = 1, a_client = ''gadzit'', a_t1 = 7, a_t2 = 7, a_t3 = 7\<rparr>]
   \<and> winners (\<lambda>w. False) ''main'' enabled_seed
     [\<lparr>a_ws = 2, a_client = ''phoenix'', a_t1 = 7, a_t2 = 7, a_t3 = 7\<rparr>,
      \<lparr>a_ws = 1, a_client = ''gadzit'', a_t1 = 7, a_t2 = 7, a_t3 = 7\<rparr>]
     = [\<lparr>a_ws = 2, a_client = ''phoenix'', a_t1 = 7, a_t2 = 7, a_t3 = 7\<rparr>]
   \<and> map_option buzzer_winner (sessions (run_attempts (\<lambda>w. False) ''main'' enabled_seed
     [\<lparr>a_ws = 2, a_client = ''phoenix'', a_t1 = 7, a_t2 = 7, a_t3 = 7\<rparr>,
      \<lparr>a_ws = 1, a_client = ''gadzit'', a_t1 = 7, a_t2 = 7, a_t3 = 7\<rparr>]) ''main'')
     = Some (Some ''phoenix'')"
  using at_most_one_winner [of "\<lambda>w. False" "''main''" enabled_seed
      "[\<lparr>a_ws = 2, a_client = ''phoenix'', a_t1 = 7, a_t2 = 7, a_t3 = 7\<rparr>]"
      "\<lparr>a_ws = 1, a_client = ''gadzit'', a_t1 = 7, a_t2 = 7, a_t3 = 7\<rparr>"
      "\<lparr>session_id = ''main'', buzzer_state = ENABLED, buzzer_winner = None,
           buzzer_timestamp = None, question_number = 1\<rparr>"]
    at_most_one_winner [of "\<lambda>w. False" "''main''" enabled_seed
      "[\<lparr>a_ws = 1, a_client = ''gadzit'', a_t1 = 7, a_t2 = 7, a_t3 = 7\<rparr>]"
      "\<lparr>a_ws = 2, a_client = ''phoenix'', a_t1 = 7, a_t2 = 7, a_t3 = 7\<rparr>"
      "\<lparr>session_id = ''main'', buzzer_state = ENABLED, buzzer_winner = None,
           buzzer_timestamp = None, question_number = 1\<rparr>"]
    seed_admits [of "''gadzit''" 7] seed_admits [of "''phoenix''" 7]
  by (simp add: enabled_seed_session del: winners.simps run_attempts.simps)

section \<open>The registry of connections\<close>

lemma loop_events:
  "fst (broadcast_loop dead m ex inner) =
     map (\<lambda>(k, c). if dead (ws c) then SendFailed (ws c) m else Sent (ws c) m)
       (filter (\<lambda>(k, c). Some k \<noteq> ex) inner)"
  by (induction dead m ex inner rule: broadcast_loop.induct)
    (simp_all add: case_prod_unfold Let_def)

lemma loop_dead:
  "snd (broadcast_loop dead m ex inner) =
     map fst (filter (\<lambda>(k, c). Some k \<noteq> ex \<and> dead (ws c)) inner)"
  by (induction dead m ex inner rule: broadcast_loop.induct)
    (simp_all add: case_prod_unfold Let_def)

lemma pop_all: "foldl (\<lambda>i d. AList.delete d i) inner dd = filter (\<lambda>(k, c). k \<notin> set dd) inner"
proof (induction dd arbitrary: inner)
  case Nil
  then show ?case by simp
next
  case (Cons d dd)
  have "foldl (\<lambda>i d. AList.delete d i) inner (d # dd) =
      filter (\<lambda>(k, c). k \<notin> set dd) (AList.delete d inner)"
    by (simp add: Cons.IH)
  also have "\<dots> = filter (\<lambda>(k, c). k \<notin> set (d # dd)) inner"
    by (auto simp: AList.delete_eq case_prod_unfold intro: filter_cong)
  finally show ?case .
qed

lemma distinct_pop_all: "distinct (map fst inner) \<Longrightarrow> distinct (map fst (filter P inner))"
  by (simp add: distinct_map_filter)

lemma key_of_selected:
  assumes "distinct (map fst xs)" "(k, c) \<in> set xs"
  shows "(k \<in> fst ` {x \<in> set xs. P x}) = P (k, c)"
proof
  assume "k \<in> fst ` {x \<in> set xs. P x}"
  then obtain c' where c': "(k, c') \<in> set xs" "P (k, c')" by auto
  from assms c'(1) have "c' = c" by (meson eq_key_imp_eq_value)
  with c'(2) show "P (k, c)" by simp
next
  assume "P (k, c)"
  with assms(2) show "k \<in> fst ` {x \<in> set xs. P x}" by force
qed

lemma survivors:
  assumes "distinct (map fst inner)"
  shows "filter (\<lambda>(k, c). k \<notin> set (map fst (filter (\<lambda>(k, c). Some k \<noteq> ex \<and> dead (ws c)) inner))) inner
       = filter (\<lambda>(k, c). Some k = ex \<or> \<not> dead (ws c)) inner"
proof (rule filter_cong [OF refl])
  fix x assume x: "x \<in> set inner"
  obtain k c where kc: "x = (k, c)" by (cases x)
  from key_of_selected [OF assms, of k c "\<lambda>(k, c). Some k \<noteq> ex \<and> dead (ws c)"] x kc
  show "(case x of (k, c) \<Rightarrow> k \<notin> set (map fst (filter (\<lambda>(k, c). Some k \<noteq> ex \<and> dead (ws c)) inner)))
      = (case x of (k, c) \<Rightarrow> Some k = ex \<or> \<not> dead (ws c))"
    by auto
qed

lemma broadcast_events:
  "conns sid = Some inner \<Longrightarrow>
   fst (broadcast dead conns sid m ex) =
     map (\<lambda>(k, c). if dead (ws c) then SendFailed (ws c) m else Sent (ws c) m)
       (filter (\<lambda>(k, c). Some k \<noteq> ex) inner)"
  using loop_events [of dead m ex inner]
  by (simp add: broadcast_def case_prod_unfold Let_def)

lemma broadcast_registry:
  "conns sid = Some inner \<Longrightarrow> distinct (map fst inner) \<Longrightarrow>
   snd (broadcast dead conns sid m ex) =
     conns(sid \<mapsto> filter (\<lambda>(k, c). Some k = ex \<or> \<not> dead (ws c)) inner)"
  using loop_dead [of dead m ex inner] survivors [of inner ex dead]
  by (simp add: broadcast_def pop_all case_prod_unfold Let_def)

lemma broadcast_absent: "conns sid = None \<Longrightarrow> broadcast dead conns sid m ex = ([], conns)"
  by (simp add: broadcast_def)

lemma broadcast_distinct:
  "registry_distinct conns \<Longrightarrow> registry_distinct (snd (broadcast dead conns sid m ex))"
  by (auto simp: registry_distinct_def broadcast_def pop_all distinct_map_filter
      case_prod_unfold Let_def split: option.splits if_splits)

lemma connect_distinct:
  "registry_distinct conns \<Longrightarrow> registry_distinct (snd (connect conns w sid cid r))"
  by (auto simp: registry_distinct_def connect_def Let_def distinct_update
      split: option.splits if_splits)

lemma disconnect_distinct:
  "registry_distinct conns \<Longrightarrow> registry_distinct (disconnect conns sid cid)"
  by (auto simp: registry_distinct_def disconnect_def distinct_delete
      split: option.splits if_splits)

lemma broadcast_state_distinct:
  "registry_distinct (connections s) \<Longrightarrow>
   registry_distinct (connections (fst (snd (broadcast_state dead s sid))))"
  using broadcast_distinct [of "connections s" dead sid]
  by (simp add: broadcast_state_def case_prod_unfold Let_def split: option.splits)


lemma enable_distinct:
  "registry_distinct (connections s) \<Longrightarrow>
   registry_distinct (connections (fst (snd (enable_buzzer dead s sid))))"
  by (auto simp: enable_buzzer_def get_session_def Let_def returning_state
      intro!: broadcast_state_distinct split: option.splits)

lemma disable_distinct:
  "registry_distinct (connections s) \<Longrightarrow>
   registry_distinct (connections (fst (snd (disable_buzzer dead s sid))))"
  by (auto simp: disable_buzzer_def Let_def returning_state
      intro!: broadcast_state_distinct split: option.splits)

lemma reset_distinct:
  "registry_distinct (connections s) \<Longrightarrow>
   registry_distinct (connections (fst (snd (reset_buzzer dead s sid))))"
  by (auto simp: reset_buzzer_def Let_def returning_state
      intro!: broadcast_state_distinct split: option.splits)

lemma update_score_distinct:
  "registry_distinct (connections s) \<Longrightarrow>
   registry_distinct (connections (fst (snd (update_score dead s tid delta))))"
  by (auto simp: update_score_def Let_def returning_state
      intro!: broadcast_state_distinct split: option.splits)

lemma reset_scores_distinct:
  "registry_distinct (connections s) \<Longrightarrow>
   registry_distinct (connections (fst (snd (reset_scores dead s))))"
  by (auto simp: reset_scores_def Let_def returning_state intro!: broadcast_state_distinct)

lemma set_teams_distinct:
  "registry_distinct (connections s) \<Longrightarrow>
   registry_distinct (connections (fst (snd (set_teams dead lower s ia na ib nb))))"
  by (auto simp: set_teams_def Let_def returning_state intro!: broadcast_state_distinct)

lemma panic_distinct:
  "registry_distinct (connections s) \<Longrightarrow>
   registry_distinct (connections (fst (snd (panic_button dead s))))"
  by (auto simp: panic_button_def Let_def returning_state intro!: broadcast_state_distinct)

lemma open_distinct:
  "registry_distinct (connections s) \<Longrightarrow>
   registry_distinct (connections (fst (snd (websocket_open dead verify s w sid token now))))"
  using connect_distinct [of "connections s" w sid]
    broadcast_distinct [of "snd (connect (connections s) w sid cid r)" dead sid for cid r]
  by (auto simp: websocket_open_def Let_def case_prod_unfold split: option.splits)

lemma on_buzz_distinct:
  "registry_distinct (connections s) \<Longrightarrow>
   registry_distinct (connections (fst (snd (on_buzz dead s w sid cid t1 t2 t3))))"
  using broadcast_distinct [of "connections s" dead sid]
  by (auto simp: on_buzz_def Let_def case_prod_unfold unicast_state split: option.splits)

lemma on_message_distinct:
  "registry_distinct (connections s) \<Longrightarrow>
   registry_distinct (connections (fst (snd (on_message dead s w sid cid r raw t1 t2 t3))))"
  using on_buzz_distinct [of s dead w sid cid t1 t2 t3]
  by (auto simp: on_message_def unicast_state split: parsed.splits sum.splits)

lemma on_disconnect_distinct:
  "registry_distinct (connections s) \<Longrightarrow>
   registry_distinct (connections (fst (snd (on_disconnect dead s sid cid r))))"
  by (simp add: on_disconnect_def Let_def case_prod_unfold broadcast_distinct
      disconnect_distinct)

lemma reachable_registry_distinct: "reachable s \<Longrightarrow> registry_distinct (connections s)"
proof (induction rule: reachable.induct)
  case r_seed
  show ?case by (simp add: seed_initial_data_def registry_distinct_def)
qed (simp_all add: enable_distinct disable_distinct reset_distinct update_score_distinct
    reset_scores_distinct set_teams_distinct panic_distinct open_distinct on_message_distinct
    on_disconnect_distinct)


section \<open>Superseding a connection\<close>

lemma update_single:
  "distinct (map fst xs) \<Longrightarrow> map_of xs k = Some v \<Longrightarrow>
   filter (\<lambda>(k', c). k' = k) (AList.update k v' xs) = [(k, v')]"
proof (induction xs)
  case Nil
  then show ?case by simp
next
  case (Cons p xs)
  show ?case
  proof (cases "fst p = k")
    case True
    with Cons.prems(1) have "\<forall>x \<in> set xs. fst x \<noteq> k" by (auto simp: image_iff)
    then have "filter (\<lambda>(k', c). k' = k) xs = []"
      by (auto simp: filter_empty_conv)
    with True show ?thesis by (simp add: case_prod_unfold)
  next
    case False
    with Cons show ?thesis by (simp add: case_prod_unfold)
  qed
qed

lemma connect_events:
  "conns sid = Some inner \<Longrightarrow> map_of inner cid = Some old \<Longrightarrow>
   fst (connect conns w sid cid r) =
     [Accepted w, Closed (ws old) 4009 ''New connection from same client'']"
  by (simp add: connect_def)

lemma connect_registry:
  "conns sid = Some inner \<Longrightarrow>
   snd (connect conns w sid cid r) = conns(sid \<mapsto> AList.update cid \<lparr>ws = w, role = r\<rparr> inner)"
  by (simp add: connect_def)

lemma handshake_close_codes:
  "fst (websocket_open dead verify s w sid token now) = Inr None \<Longrightarrow>
   close_codes (snd (snd (websocket_open dead verify s w sid token now)))
     \<in> {[4001], [4003], [4004]}"
  by (auto simp: websocket_open_def close_codes_def Let_def case_prod_unfold
      split: option.splits if_splits)

text \<open>
  What \<^verbatim>\<open>connect\<close> itself does. In every reachable state each session's dictionary
  of connections holds a client id at most once. When \<^verbatim>\<open>connect\<close> is called for a
  session and client that already have a channel, the new socket is accepted, the old
  channel is closed with code 4009, and when \<^verbatim>\<open>connect\<close> returns the dictionary has
  exactly one entry for the client, the new channel; the other clients' entries and the
  order are unchanged. The code 4009 is not among the codes with which the handshake
  rejects a socket (4001, 4003, 4004).
\<close>

lemma connect_replaces_entry:
  "(reachable s \<and> connections s sid' = Some held \<longrightarrow> distinct (map fst held))
   \<and> (conns sid = Some inner \<and> distinct (map fst inner) \<and> map_of inner cid = Some old \<longrightarrow>
        fst (connect conns w sid cid r) =
          [Accepted w, Closed (ws old) 4009 ''New connection from same client'']
        \<and> (\<exists>inner'. snd (connect conns w sid cid r) = conns(sid \<mapsto> inner')
              \<and> filter (\<lambda>(k, c). k = cid) inner' = [(cid, \<lparr>ws = w, role = r\<rparr>)]
              \<and> distinct (map fst inner')
              \<and> map fst inner' = map fst inner
              \<and> (\<forall>k. k \<noteq> cid \<longrightarrow> map_of inner' k = map_of inner k)))
   \<and> (fst (websocket_open dead verify s w' sid' token now) = Inr None \<longrightarrow>
        4009 \<notin> set (close_codes (snd (snd (websocket_open dead verify s w' sid' token now)))))"
proof (intro conjI impI; (elim conjE)?)
  assume "reachable s" "connections s sid' = Some held"
  then show "distinct (map fst held)"
    using reachable_registry_distinct [of s] by (simp add: registry_distinct_def)
next
  assume a: "conns sid = Some inner" "distinct (map fst inner)" "map_of inner cid = Some old"
  show "fst (connect conns w sid cid r) =
     [Accepted w, Closed (ws old) 4009 ''New connection from same client'']"
    using a by (simp add: connect_events)
next
  assume a: "conns sid = Some inner" "distinct (map fst inner)" "map_of inner cid = Some old"
  have key: "cid \<in> fst ` set inner" using map_of_SomeD [OF a(3)] by force
  show "\<exists>inner'. snd (connect conns w sid cid r) = conns(sid \<mapsto> inner')
         \<and> filter (\<lambda>(k, c). k = cid) inner' = [(cid, \<lparr>ws = w, role = r\<rparr>)]
         \<and> distinct (map fst inner')
         \<and> map fst inner' = map fst inner
         \<and> (\<forall>k. k \<noteq> cid \<longrightarrow> map_of inner' k = map_of inner k)"
    using a key
    by (intro exI [of _ "AList.update cid \<lparr>ws = w, role = r\<rparr> inner"])
      (simp add: connect_registry update_single distinct_update update_keys update_conv')
next
  assume "fst (websocket_open dead verify s w' sid' token now) = Inr None"
  from handshake_close_codes [OF this]
  show "4009 \<notin> set (close_codes (snd (snd (websocket_open dead verify s w' sid' token now))))"
    by auto
qed

lemma connect_replaces_entry_example:
  "connect [''main'' \<mapsto> [(''partyA'', \<lparr>ws = 1, role = ''participant''\<rparr>)]] 2 ''main'' ''partyA''
     ''participant'' =
     ([Accepted 2, Closed 1 4009 ''New connection from same client''],
      [''main'' \<mapsto> [(''partyA'', \<lparr>ws = 2, role = ''participant''\<rparr>)]])
   \<and> snd (snd (websocket_open (\<lambda>w. False) (\<lambda>t. None) seed_initial_data 5 ''main'' None 0)) =
       [Closed 5 4001 ''Missing token'']"
  using connect_replaces_entry [of seed_initial_data "''main''" "[]"
      "[''main'' \<mapsto> [(''partyA'', \<lparr>ws = 1, role = ''participant''\<rparr>)]]"
      "''main''" "[(''partyA'', \<lparr>ws = 1, role = ''participant''\<rparr>)]" "''partyA''"
      "\<lparr>ws = 1, role = ''participant''\<rparr>" 2 "''participant''"
      "\<lambda>w. False" "\<lambda>t. None" 5 None 0]
  by (simp add: connect_def websocket_open_def)

subsection \<open>The handler of the superseded connection\<close>

lemma first_tab_connections:
  "connections first_tab ''main'' = Some [(''gadzit'', \<lparr>ws = 1, role = ''participant''\<rparr>)]"
  by (simp add: first_tab_def websocket_open_def gadzit_token_def seed_initial_data_def
      connect_def broadcast_def Let_def)

lemma first_tab_sessions: "sessions first_tab = sessions seed_initial_data"
  by (simp add: first_tab_def open_sessions)

lemma second_tab_events:
  "close_codes (snd (snd (websocket_open (\<lambda>w. False) gadzit_token first_tab 2 ''main''
      (Some ''t'') 11))) = [4009]"
  by (simp add: websocket_open_def gadzit_token_def first_tab_sessions seed_initial_data_def
      first_tab_connections connect_def broadcast_def Let_def close_codes_def)

lemma second_tab_connections:
  "connections second_tab ''main'' = Some [(''gadzit'', \<lparr>ws = 2, role = ''participant''\<rparr>)]"
  by (simp add: second_tab_def websocket_open_def gadzit_token_def first_tab_sessions
      seed_initial_data_def first_tab_connections connect_def broadcast_def Let_def)

lemma after_old_cleanup_connections: "connections after_old_cleanup ''main'' = Some []"
  by (simp add: after_old_cleanup_def on_disconnect_def disconnect_def second_tab_connections
      broadcast_def Let_def)

lemma reachable_after_old_cleanup: "reachable after_old_cleanup"
  unfolding after_old_cleanup_def second_tab_def first_tab_def by (intro reachable.intros)

lemma after_old_cleanup_sessions: "sessions after_old_cleanup = sessions seed_initial_data"
  by (simp add: after_old_cleanup_def second_tab_def on_disconnect_sessions open_sessions
      first_tab_sessions)

text \<open>
  C7. The registry does not keep the one live channel of a client that connects
  twice. \<^verbatim>\<open>gadzit\<close> connects on socket 1 and then on socket 2: \<^verbatim>\<open>connect\<close> closes
  socket 1 with code 4009 and registers socket 2. The endpoint coroutine of socket 1
  then handles its \<^verbatim>\<open>WebSocketDisconnect\<close> by \<^verbatim>\<open>manager.disconnect\<close>, which removes
  the entry of the client id whatever socket it holds. In the state reached, socket 2
  is open and the session's dictionary is empty: a broadcast of the state sends
  nothing.
\<close>

theorem superseded_cleanup_drops_new_channel:
  "reachable after_old_cleanup
   \<and> close_codes (snd (snd (websocket_open (\<lambda>w. False) gadzit_token first_tab 2 ''main''
        (Some ''t'') 11))) = [4009]
   \<and> connections second_tab ''main'' = Some [(''gadzit'', \<lparr>ws = 2, role = ''participant''\<rparr>)]
   \<and> connections after_old_cleanup ''main'' = Some []
   \<and> snd (snd (broadcast_state (\<lambda>w. False) after_old_cleanup ''main'')) = []"
  by (simp add: reachable_after_old_cleanup second_tab_events second_tab_connections
      after_old_cleanup_connections broadcast_state_def after_old_cleanup_sessions
      seed_initial_data_def broadcast_def)

section \<open>Broadcast\<close>

text \<open>
  A broadcast during which no other coroutine changes the dictionary calls
  \<^verbatim>\<open>send_json\<close> once on every channel of the session except the excluded client's,
  in the order of the dictionary, whether or not earlier sends raised. Afterwards the
  dictionary holds the excluded client's channel and exactly the channels whose send
  did not raise, and \<^verbatim>\<open>broadcast_state\<close> of an existing session returns normally
  whatever channels fail.
\<close>

lemma broadcast_alone:
  "conns sid = Some inner \<Longrightarrow> distinct (map fst inner) \<Longrightarrow>
   fst (broadcast dead conns sid m ex) =
     map (\<lambda>(k, c). if dead (ws c) then SendFailed (ws c) m else Sent (ws c) m)
       (filter (\<lambda>(k, c). Some k \<noteq> ex) inner)
   \<and> snd (broadcast dead conns sid m ex) =
       conns(sid \<mapsto> filter (\<lambda>(k, c). Some k = ex \<or> \<not> dead (ws c)) inner)
   \<and> (sessions s sid' \<noteq> None \<longrightarrow> fst (broadcast_state dead s sid') = Inr ())"
  using broadcast_events [of conns sid inner dead m ex]
    broadcast_registry [of conns sid inner dead m ex]
    broadcast_state_ok [of s sid' _ dead]
  by auto

lemma broadcast_alone_example:
  "broadcast (\<lambda>w. w = 2)
     [''main'' \<mapsto> [(''gadzit'', \<lparr>ws = 1, role = ''participant''\<rparr>),
                   (''phoenix'', \<lparr>ws = 2, role = ''participant''\<rparr>),
                   (''screen'', \<lparr>ws = 3, role = ''screen''\<rparr>)]] ''main'' JNull None =
     ([Sent 1 JNull, SendFailed 2 JNull, Sent 3 JNull],
      [''main'' \<mapsto> [(''gadzit'', \<lparr>ws = 1, role = ''participant''\<rparr>),
                    (''screen'', \<lparr>ws = 3, role = ''screen''\<rparr>)]])
   \<and> fst (broadcast_state (\<lambda>w. w = 2) seed_initial_data ''main'') = Inr ()"
  using broadcast_alone [of
      "[''main'' \<mapsto> [(''gadzit'', \<lparr>ws = 1, role = ''participant''\<rparr>),
                   (''phoenix'', \<lparr>ws = 2, role = ''participant''\<rparr>),
                   (''screen'', \<lparr>ws = 3, role = ''screen''\<rparr>)]]" "''main''"
      "[(''gadzit'', \<lparr>ws = 1, role = ''participant''\<rparr>),
                   (''phoenix'', \<lparr>ws = 2, role = ''participant''\<rparr>),
                   (''screen'', \<lparr>ws = 3, role = ''screen''\<rparr>)]"
      "\<lambda>w. w = 2" JNull None seed_initial_data "''main''"]
  by (simp add: seed_initial_data_def prod_eq_iff)

subsection \<open>A disconnect during a broadcast\<close>

lemma live_loop_alone:
  "broadcast_live_loop dead m ex [] live xs =
     (Inr (snd (broadcast_loop dead m ex xs)), live, fst (broadcast_loop dead m ex xs))"
  by (induction dead m ex xs rule: broadcast_loop.induct)
    (simp_all add: case_prod_unfold Let_def)

lemma broadcast_live_alone:
  "broadcast_live dead [] conns sid m ex =
     (Inr (), snd (broadcast dead conns sid m ex), fst (broadcast dead conns sid m ex))"
  by (simp add: broadcast_live_def broadcast_def live_loop_alone case_prod_unfold Let_def
      split: option.splits)

text \<open>
  C8. The isolation is lost when another connection's handler disconnects while
  \<^verbatim>\<open>broadcast\<close> awaits a send. On a session with the channels of \<^verbatim>\<open>gadzit\<close>,
  \<^verbatim>\<open>phoenix\<close>, \<^verbatim>\<open>screen\<close> and \<^verbatim>\<open>admin\<close>, the send to \<^verbatim>\<open>gadzit\<close> raises and is
  caught; during the send to \<^verbatim>\<open>phoenix\<close> the handler of \<^verbatim>\<open>screen\<close> removes its
  entry. The loop then ends with \<^verbatim>\<open>RuntimeError\<close>, which leaves \<^verbatim>\<open>broadcast\<close>:
  \<^verbatim>\<open>admin\<close> is sent nothing and the failed channel of \<^verbatim>\<open>gadzit\<close> stays registered.
  Without the disconnect the same broadcast reaches all three other channels and
  removes \<^verbatim>\<open>gadzit\<close>.
\<close>

theorem broadcast_aborts_on_disconnect:
  "broadcast_live (\<lambda>w. w = 1) [None, Some ''screen''] four_channels ''main'' JNull None =
     (Inl RuntimeError,
      [''main'' \<mapsto> [(''gadzit'', \<lparr>ws = 1, role = ''participant''\<rparr>),
                    (''phoenix'', \<lparr>ws = 2, role = ''participant''\<rparr>),
                    (''admin'', \<lparr>ws = 4, role = ''admin''\<rparr>)]],
      [SendFailed 1 JNull, Sent 2 JNull])
   \<and> broadcast_live (\<lambda>w. w = 1) [] four_channels ''main'' JNull None =
     (Inr (),
      [''main'' \<mapsto> [(''phoenix'', \<lparr>ws = 2, role = ''participant''\<rparr>),
                    (''screen'', \<lparr>ws = 3, role = ''screen''\<rparr>),
                    (''admin'', \<lparr>ws = 4, role = ''admin''\<rparr>)]],
      [SendFailed 1 JNull, Sent 2 JNull, Sent 3 JNull, Sent 4 JNull])"
  by (simp add: broadcast_live_def four_channels_def)

end
